theory Spec2Isabelle
  imports Main
begin

section \<open>Values of the host language\<close>

text \<open>
  Decoded payloads are loosely typed (\<^verbatim>\<open>any\<close>). A value is \<^verbatim>\<open>undefined\<close>, \<^verbatim>\<open>null\<close>, a
  boolean, a number, a string, an array or an object. Numbers are the integers the remote
  service sends (identifiers, timestamps, scores, status codes). An object is the list of
  its own properties in insertion order; an own property is read with \<open>map_of\<close>.
  Decoding never produces a function, but reading a property can: \<open>JFunction n\<close> is a
  function of the host language (such as the \<^verbatim>\<open>toString\<close> every object inherits), told
  from the others by its number.
\<close>

datatype jsval =
    Undefined
  | JNull
  | JBool bool
  | JNum int
  | JStr string
  | JArr "jsval list"
  | JObj "(string \<times> jsval) list"
  | JFunction nat

fun typeof :: "jsval \<Rightarrow> string" where
  "typeof Undefined = ''undefined''"
| "typeof JNull = ''object''"
| "typeof (JBool b) = ''boolean''"
| "typeof (JNum n) = ''number''"
| "typeof (JStr s) = ''string''"
| "typeof (JArr xs) = ''object''"
| "typeof (JObj kvs) = ''object''"
| "typeof (JFunction n) = ''function''"

fun isArray :: "jsval \<Rightarrow> bool" where
  "isArray (JArr xs) = True"
| "isArray v = False"

subsection \<open>Strings\<close>

fun startsWith :: "string \<Rightarrow> string \<Rightarrow> bool" where
  "startsWith s [] = True"
| "startsWith [] (p # ps) = False"
| "startsWith (c # cs) (p # ps) = (c = p \<and> startsWith cs ps)"

definition endsWith :: "string \<Rightarrow> string \<Rightarrow> bool" where
  "endsWith s p = startsWith (rev s) (rev p)"

fun includes_str :: "string \<Rightarrow> string \<Rightarrow> bool" where
  "includes_str [] p = (p = [])"
| "includes_str (c # cs) p = (startsWith (c # cs) p \<or> includes_str cs p)"

text \<open>\<^verbatim>\<open>s.split(sep)\<close> for a separator of one character: never empty, \<^verbatim>\<open>"".split(".")\<close> is \<^verbatim>\<open>[""]\<close>.\<close>

fun split_on :: "char \<Rightarrow> string \<Rightarrow> string list" where
  "split_on sep [] = [[]]"
| "split_on sep (c # cs) =
     (if c = sep then [] # split_on sep cs
      else (case split_on sep cs of
              [] \<Rightarrow> [[c]]
            | w # ws \<Rightarrow> (c # w) # ws))"

fun join :: "string \<Rightarrow> string list \<Rightarrow> string" where
  "join sep [] = []"
| "join sep [x] = x"
| "join sep (x # y # ys) = x @ sep @ join sep (y # ys)"

definition digit_char :: "nat \<Rightarrow> char" where
  "digit_char d = char_of (48 + d)"

fun show_nat :: "nat \<Rightarrow> string" where
  "show_nat n = (if n < 10 then [digit_char n] else show_nat (n div 10) @ [digit_char (n mod 10)])"

declare show_nat.simps [simp del]

text \<open>A number inside a template literal, for the integers of this model.\<close>

definition show_int :: "int \<Rightarrow> string" where
  "show_int i = (if i < 0 then CHR ''-'' # show_nat (nat (- i)) else show_nat (nat i))"

definition is_digit :: "char \<Rightarrow> bool" where
  "is_digit c = (c \<in> set ''0123456789'')"

definition digit_val :: "char \<Rightarrow> nat" where
  "digit_val c = of_char c - 48"

text \<open>A property name that is an array index: a canonical decimal numeral.\<close>

definition parse_index :: "string \<Rightarrow> nat option" where
  "parse_index s =
     (if s \<noteq> [] \<and> list_all is_digit s \<and> (s = ''0'' \<or> hd s \<noteq> CHR ''0'')
      then Some (foldl (\<lambda>a c. 10 * a + digit_val c) 0 s)
      else None)"

subsection \<open>Slicing\<close>

text \<open>
  \<^verbatim>\<open>Array.prototype.slice(start, end)\<close> and \<^verbatim>\<open>String.prototype.slice\<close>: a negative
  index counts from the end, and both indices are clamped to the length.
\<close>

definition rel_index :: "int \<Rightarrow> nat \<Rightarrow> nat" where
  "rel_index i n = (if i < 0 then nat (max (int n + i) 0) else min (nat i) n)"

definition slice :: "'a list \<Rightarrow> int \<Rightarrow> int \<Rightarrow> 'a list" where
  "slice xs start end =
     (let k = rel_index start (length xs); e = rel_index end (length xs)
      in take (e - k) (drop k xs))"

subsection \<open>Property access\<close>

text \<open>
  What a value inherits through its prototype chain belongs to the host language, not to
  the decoded data, so it is a parameter: \<open>host v p\<close> is what reading \<open>p\<close> on \<open>v\<close> gives
  when \<open>v\<close> has no own property \<open>p\<close> (a function for \<^verbatim>\<open>constructor\<close> or \<^verbatim>\<open>toString\<close>,
  \<^verbatim>\<open>undefined\<close> for a name that no prototype has). Every property of a number, of a
  boolean and of a function of the host is read there.
\<close>

type_synonym host_members = "jsval \<Rightarrow> string \<Rightarrow> jsval"

text \<open>
  \<^verbatim>\<open>current?.[prop]\<close>: \<^verbatim>\<open>undefined\<close> on \<^verbatim>\<open>undefined\<close> and \<^verbatim>\<open>null\<close>; the own property of
  an object; the element or the \<^verbatim>\<open>length\<close> of an array or a string; and otherwise what the
  value inherits.
\<close>

fun getProp :: "host_members \<Rightarrow> jsval \<Rightarrow> string \<Rightarrow> jsval" where
  "getProp host Undefined p = Undefined"
| "getProp host JNull p = Undefined"
| "getProp host (JObj kvs) p = (case map_of kvs p of None \<Rightarrow> host (JObj kvs) p | Some v \<Rightarrow> v)"
| "getProp host (JArr xs) p =
     (if p = ''length'' then JNum (int (length xs))
      else (case parse_index p of
              None \<Rightarrow> host (JArr xs) p
            | Some i \<Rightarrow> if i < length xs then xs ! i else host (JArr xs) p))"
| "getProp host (JStr s) p =
     (if p = ''length'' then JNum (int (length s))
      else (case parse_index p of
              None \<Rightarrow> host (JStr s) p
            | Some i \<Rightarrow> if i < length s then JStr [s ! i] else host (JStr s) p))"
| "getProp host v p = host v p"

section \<open>Errors\<close>

text \<open>
  What a \<^verbatim>\<open>throw\<close> can carry. \<open>js_error\<close> is an error object that is none of the three typed
  classes (a network failure, an abort, a body that does not parse); its \<open>err_response\<close> is
  the \<^verbatim>\<open>response\<close> property that \<^verbatim>\<open>handleAPIError\<close> reads (status and data).
\<close>

record js_error =
  err_name :: string
  err_message :: string
  err_response :: "(int \<times> jsval) option"

datatype error =
    APIError (statusCode: int) (api_message: string) (endpoint: string) (responseBody: jsval)
  | ValidationError (val_message: string) (field: "string option") (validationDetails: jsval)
  | ConfigurationError string
  | OtherError js_error
  | ThrownUndefined

text \<open>\<^verbatim>\<open>x || d\<close> on a string: the empty string is falsy.\<close>

definition or_str :: "string \<Rightarrow> string \<Rightarrow> string" where
  "or_str s d = (if s = [] then d else s)"

fun handleAPIError :: "error \<Rightarrow> string \<Rightarrow> error" where
  "handleAPIError (APIError s m e b) ep = APIError s m e b"
| "handleAPIError (OtherError je) ep =
     (case err_response je of
        Some (st, d) \<Rightarrow> APIError st (or_str (err_message je) ''API request failed'') ep d
      | None \<Rightarrow> APIError 500 (or_str (err_message je) ''Unknown API error'') ep Undefined)"
| "handleAPIError (ValidationError m f d) ep = APIError 500 (or_str m ''Unknown API error'') ep Undefined"
| "handleAPIError (ConfigurationError m) ep = APIError 500 (or_str m ''Unknown API error'') ep Undefined"
| "handleAPIError ThrownUndefined ep =
     OtherError \<lparr>err_name = ''TypeError'', err_message = ''Cannot read properties of undefined'',
                 err_response = None\<rparr>"

definition handleConfigurationError :: "string \<Rightarrow> error" where
  "handleConfigurationError message = ConfigurationError message"

section \<open>Response envelope\<close>

record HttpResponse =
  status :: int
  statusText :: string
  headers :: "(string \<times> string) list"
  data :: jsval
  ok :: bool

section \<open>ResponseValidator\<close>

definition getNestedValue :: "host_members \<Rightarrow> jsval \<Rightarrow> string \<Rightarrow> jsval" where
  "getNestedValue host obj path = foldl (getProp host) obj (split_on CHR ''.'' path)"

definition validateStatus :: "HttpResponse \<Rightarrow> int + int list \<Rightarrow> error + unit" where
  "validateStatus response expectedStatus =
     (let expected = (case expectedStatus of Inl n \<Rightarrow> [n] | Inr ns \<Rightarrow> ns)
      in if status response \<notin> set expected
         then Inl (ValidationError
                (''Expected status '' @ join '' or '' (map show_int expected) @ '', got ''
                   @ show_int (status response))
                (Some ''status'')
                (JObj [(''expected'', JArr (map JNum expected)), (''actual'', JNum (status response))]))
         else Inr ())"

definition validateRequired :: "host_members \<Rightarrow> jsval \<Rightarrow> string list \<Rightarrow> error + unit" where
  "validateRequired host d flds =
     (let missing = filter (\<lambda>f. getNestedValue host d f = Undefined
                                \<or> getNestedValue host d f = JNull) flds
      in if length missing > 0
         then Inl (ValidationError
                (''Missing required fields: '' @ join '', '' missing)
                (Some (hd missing))
                (JObj [(''missing'', JArr (map JStr missing)), (''data'', d)]))
         else Inr ())"

definition quoted :: "string \<Rightarrow> string" where
  "quoted s = [CHR 0x27] @ s @ [CHR 0x27]"

definition validateType :: "host_members \<Rightarrow> jsval \<Rightarrow> string \<Rightarrow> string \<Rightarrow> error + unit" where
  "validateType host d fld expectedType =
     (let v = getNestedValue host d fld;
          actualType = (if isArray v then ''array'' else typeof v)
      in if actualType \<noteq> expectedType
         then Inl (ValidationError
                (''Field '' @ quoted fld @ '' should be of type '' @ quoted expectedType
                   @ '', got '' @ quoted actualType)
                (Some fld)
                (JObj [(''expected'', JStr expectedType), (''actual'', JStr actualType), (''value'', v)]))
         else Inr ())"

definition validateArrayNotEmpty :: "host_members \<Rightarrow> jsval \<Rightarrow> string \<Rightarrow> error + unit" where
  "validateArrayNotEmpty host d fld =
     (let v = getNestedValue host d fld
      in case v of
           JArr xs \<Rightarrow>
             if length xs = 0
             then Inl (ValidationError
                    (''Array field '' @ quoted fld @ '' should not be empty'')
                    (Some fld)
                    (JObj [(''value'', v)]))
             else Inr ()
         | _ \<Rightarrow>
             Inl (ValidationError
                    (''Field '' @ quoted fld @ '' should be an array'')
                    (Some fld)
                    (JObj [(''value'', v)])))"

section \<open>ConfigManager\<close>

record Environment =
  env_name :: string
  env_baseUrl :: string
  env_timeout :: "int option"
  env_retries :: "int option"
  env_headers :: "(string \<times> string) list option"

record Logging =
  level :: string
  enabled :: bool

record Reporting =
  outputDir :: string
  format :: "string list"

record TestConfig =
  environment :: Environment
  logging :: Logging
  reporting :: Reporting

text \<open>
  The singleton's two fields. \<^verbatim>\<open>environments\<close> is a \<^verbatim>\<open>Map\<close>: keys in insertion order,
  \<^verbatim>\<open>set\<close> on a key that is there replaces the value in place.
\<close>

record ConfigManager =
  config :: TestConfig
  environments :: "(string \<times> Environment) list"

fun map_set :: "'k \<Rightarrow> 'v \<Rightarrow> ('k \<times> 'v) list \<Rightarrow> ('k \<times> 'v) list" where
  "map_set k v [] = [(k, v)]"
| "map_set k v ((k', v') # kvs) = (if k' = k then (k, v) # kvs else (k', v') # map_set k v kvs)"

text \<open>Object spread \<^verbatim>\<open>{ ...a, ...b }\<close>: the properties of \<open>b\<close> override those of \<open>a\<close>.\<close>

definition spread :: "('k \<times> 'v) list \<Rightarrow> ('k \<times> 'v) list \<Rightarrow> ('k \<times> 'v) list" where
  "spread a b = foldl (\<lambda>acc kv. map_set (fst kv) (snd kv) acc) a b"

definition loadEnvironments :: "(string \<times> Environment) list" where
  "loadEnvironments =
     (let dev = \<lparr>env_name = ''dev'', env_baseUrl = ''https://hacker-news.firebaseio.com/v0'',
                 env_timeout = Some 30000, env_retries = Some 2, env_headers = None\<rparr>;
          staging = \<lparr>env_name = ''staging'', env_baseUrl = ''https://hacker-news.firebaseio.com/v0'',
                 env_timeout = Some 30000, env_retries = Some 2, env_headers = None\<rparr>;
          production = \<lparr>env_name = ''production'', env_baseUrl = ''https://hacker-news.firebaseio.com/v0'',
                 env_timeout = Some 30000, env_retries = Some 1, env_headers = None\<rparr>
      in map_set ''production'' production (map_set ''staging'' staging (map_set ''dev'' dev [])))"

text \<open>\<^verbatim>\<open>process.env.K || d\<close>: the default when the variable is unset or empty.\<close>

definition env_or :: "(string \<Rightarrow> string option) \<Rightarrow> string \<Rightarrow> string \<Rightarrow> string" where
  "env_or penv k d = (case penv k of None \<Rightarrow> d | Some s \<Rightarrow> or_str s d)"

definition not_found_message :: "string \<Rightarrow> (string \<times> Environment) list \<Rightarrow> string" where
  "not_found_message envName envs =
     ''Environment '' @ quoted envName @ '' not found. Available: '' @ join '', '' (map fst envs)"

definition initializeConfig ::
  "(string \<times> Environment) list \<Rightarrow> (string \<Rightarrow> string option) \<Rightarrow> error + TestConfig" where
  "initializeConfig envs penv =
     (let envName = env_or penv ''TEST_ENV'' ''dev''
      in case map_of envs envName of
           None \<Rightarrow> Inl (handleConfigurationError (not_found_message envName envs))
         | Some e \<Rightarrow>
             Inr \<lparr>environment = e,
                  logging = \<lparr>level = env_or penv ''LOG_LEVEL'' ''INFO'',
                             enabled = (penv ''LOGGING_ENABLED'' \<noteq> Some ''false'')\<rparr>,
                  reporting = \<lparr>outputDir = env_or penv ''REPORT_DIR'' ''./reports'',
                               format = split_on CHR '','' (env_or penv ''REPORT_FORMAT'' ''html,json'')\<rparr>\<rparr>)"

definition new_ConfigManager :: "(string \<Rightarrow> string option) \<Rightarrow> error + ConfigManager" where
  "new_ConfigManager penv =
     (case initializeConfig loadEnvironments penv of
        Inl e \<Rightarrow> Inl e
      | Inr c \<Rightarrow> Inr \<lparr>config = c, environments = loadEnvironments\<rparr>)"

text \<open>The static \<^verbatim>\<open>instance\<close> is the second argument; the result is the instance it holds afterwards.\<close>

definition getInstance ::
  "(string \<Rightarrow> string option) \<Rightarrow> ConfigManager option \<Rightarrow> error + ConfigManager" where
  "getInstance penv inst = (case inst of None \<Rightarrow> new_ConfigManager penv | Some cm \<Rightarrow> Inr cm)"

definition getConfig :: "ConfigManager \<Rightarrow> TestConfig" where
  "getConfig cm = config cm"

definition getEnvironment :: "ConfigManager \<Rightarrow> Environment" where
  "getEnvironment cm = environment (config cm)"

definition getBaseUrl :: "ConfigManager \<Rightarrow> string" where
  "getBaseUrl cm = env_baseUrl (environment (config cm))"

definition getTimeout :: "ConfigManager \<Rightarrow> int" where
  "getTimeout cm =
     (case env_timeout (environment (config cm)) of
        None \<Rightarrow> 30000
      | Some t \<Rightarrow> if t = 0 then 30000 else t)"

definition getRetries :: "ConfigManager \<Rightarrow> int" where
  "getRetries cm = (case env_retries (environment (config cm)) of None \<Rightarrow> 0 | Some r \<Rightarrow> r)"

definition getHeaders :: "ConfigManager \<Rightarrow> (string \<times> string) list" where
  "getHeaders cm = (case env_headers (environment (config cm)) of None \<Rightarrow> [] | Some h \<Rightarrow> h)"

definition setEnvironment :: "string \<Rightarrow> ConfigManager \<Rightarrow> error + ConfigManager" where
  "setEnvironment envName cm =
     (case map_of (environments cm) envName of
        None \<Rightarrow> Inl (handleConfigurationError (not_found_message envName (environments cm)))
      | Some e \<Rightarrow> Inr (cm\<lparr>config := (config cm)\<lparr>environment := e\<rparr>\<rparr>))"

text \<open>
  The public operations of the resolver, and the singleton after a caller has invoked one:
  a getter leaves it as it is, and so does a \<^verbatim>\<open>setEnvironment\<close> that throws (the throw
  comes before the assignment).
\<close>

datatype config_op =
    GetConfig | GetEnvironment | GetBaseUrl | GetTimeout | GetRetries | GetHeaders
  | SetEnvironment string

fun after_op :: "ConfigManager \<Rightarrow> config_op \<Rightarrow> ConfigManager" where
  "after_op cm (SetEnvironment n) = (case setEnvironment n cm of Inl e \<Rightarrow> cm | Inr cm' \<Rightarrow> cm')"
| "after_op cm other = cm"

definition after_ops :: "ConfigManager \<Rightarrow> config_op list \<Rightarrow> ConfigManager" where
  "after_ops cm ops = foldl after_op cm ops"

section \<open>HttpClient\<close>

datatype http_method = GET | POST | PUT | DELETE | PATCH

record HttpRequestConfig =
  rq_method :: http_method
  rq_url :: string
  rq_headers :: "(string \<times> string) list option"
  rq_body :: "jsval option"
  rq_timeout :: "int option"
  rq_retries :: "int option"

record HttpClient =
  hc_baseUrl :: string
  hc_defaultHeaders :: "(string \<times> string) list"
  hc_timeout :: int
  hc_retries :: int

text \<open>
  What one call of \<^verbatim>\<open>fetch\<close> gets and gives. The transport is a parameter: for the request
  and the number of the attempt, it answers with a response or throws (network failure, or
  \<^verbatim>\<open>AbortError\<close> when the timer of \<open>f_timeout\<close> milliseconds fires first). Header names are
  lower case, as the \<^verbatim>\<open>Headers\<close> object delivers them. \<open>r_json\<close> is what \<^verbatim>\<open>response.json()\<close>
  gives (a value, or the error it throws), \<open>r_text\<close> what \<^verbatim>\<open>response.text()\<close> gives.
\<close>

record fetch_request =
  f_url :: string
  f_method :: http_method
  f_headers :: "(string \<times> string) list"
  f_body :: "jsval option"
  f_timeout :: int

record raw_response =
  r_status :: int
  r_statusText :: string
  r_headers :: "(string \<times> string) list"
  r_json :: "js_error + jsval"
  r_text :: string

type_synonym transport = "fetch_request \<Rightarrow> nat \<Rightarrow> js_error + raw_response"

text \<open>\<^verbatim>\<open>response.ok\<close>: true if the status is in the 200-299 range.\<close>

definition r_ok :: "raw_response \<Rightarrow> bool" where
  "r_ok r = (200 \<le> r_status r \<and> r_status r \<le> 299)"

definition new_HttpClient ::
  "ConfigManager \<Rightarrow> string option \<Rightarrow> (string \<times> string) list option \<Rightarrow> int option \<Rightarrow> int option
     \<Rightarrow> HttpClient" where
  "new_HttpClient cm baseUrl hdrs timeout retries =
     \<lparr>hc_baseUrl = (case baseUrl of None \<Rightarrow> getBaseUrl cm | Some b \<Rightarrow> or_str b (getBaseUrl cm)),
      hc_defaultHeaders =
        spread (spread [(''Content-Type'', ''application/json'')] (getHeaders cm))
               (case hdrs of None \<Rightarrow> [] | Some h \<Rightarrow> h),
      hc_timeout = (case timeout of None \<Rightarrow> getTimeout cm
                    | Some t \<Rightarrow> if t = 0 then getTimeout cm else t),
      hc_retries = (case retries of None \<Rightarrow> getRetries cm | Some r \<Rightarrow> r)\<rparr>"

definition buildUrl :: "HttpClient \<Rightarrow> string \<Rightarrow> string" where
  "buildUrl c path =
     (if startsWith path ''http://'' \<or> startsWith path ''https://'' then path
      else let base = (if endsWith (hc_baseUrl c) ''/'' then slice (hc_baseUrl c) 0 (- 1)
                       else hc_baseUrl c);
               endpoint = (if startsWith path ''/'' then path else ''/'' @ path)
           in base @ endpoint)"

text \<open>
  The body of the \<^verbatim>\<open>try\<close> block: one call of the transport, the decoding of the body by
  content type, and the envelope; \<open>Inl\<close> is what the \<^verbatim>\<open>catch\<close> clause receives.
\<close>

definition decode_body :: "raw_response \<Rightarrow> js_error + jsval" where
  "decode_body r =
     (case map_of (r_headers r) ''content-type'' of
        None \<Rightarrow> Inr (JStr (r_text r))
      | Some contentType \<Rightarrow>
          if includes_str contentType ''application/json'' then r_json r
          else Inr (JStr (r_text r)))"

definition attempt_once :: "transport \<Rightarrow> fetch_request \<Rightarrow> nat \<Rightarrow> error + HttpResponse" where
  "attempt_once net rq attempt =
     (case net rq attempt of
        Inl e \<Rightarrow> Inl (OtherError e)
      | Inr response \<Rightarrow>
          (case decode_body response of
             Inl e \<Rightarrow> Inl (OtherError e)
           | Inr d \<Rightarrow>
               let httpResponse = \<lparr>status = r_status response, statusText = r_statusText response,
                                   headers = r_headers response, data = d, ok = r_ok response\<rparr>
               in if \<not> r_ok response
                  then Inl (APIError (r_status response)
                         (''HTTP '' @ show_int (r_status response) @ '': '' @ r_statusText response)
                         (f_url rq) d)
                  else Inr httpResponse))"

text \<open>
  What a call has done besides returning: the number of calls of the transport, and the
  delays it has waited, in milliseconds.
\<close>

record run_log =
  fetch_calls :: nat
  delays :: "int list"

definition throw_last :: "error option \<Rightarrow> error" where
  "throw_last lastError = (case lastError of None \<Rightarrow> ThrownUndefined | Some e \<Rightarrow> e)"

function request_loop ::
  "transport \<Rightarrow> fetch_request \<Rightarrow> int \<Rightarrow> nat \<Rightarrow> error option \<Rightarrow> run_log
     \<Rightarrow> (error + HttpResponse) \<times> run_log" where
  "request_loop net rq maxRetries attempt lastError lg =
     (if int attempt \<le> maxRetries then
        (let lg1 = (if attempt > 0 then lg\<lparr>delays := delays lg @ [1000 * int attempt]\<rparr> else lg);
             lg2 = lg1\<lparr>fetch_calls := Suc (fetch_calls lg1)\<rparr>
         in case attempt_once net rq attempt of
              Inr httpResponse \<Rightarrow> (Inr httpResponse, lg2)
            | Inl err \<Rightarrow>
                if int attempt = maxRetries then (Inl (handleAPIError err (f_url rq)), lg2)
                else request_loop net rq maxRetries (Suc attempt) (Some err) lg2)
      else (Inl (throw_last lastError), lg))"
  by pat_completeness auto
termination
  by (relation "measure (\<lambda>(net, rq, maxRetries, attempt, lastError, lg). nat (maxRetries + 1 - int attempt))")
     auto

declare request_loop.simps [simp del]

text \<open>
  The first lines of \<^verbatim>\<open>request\<close>: what every attempt sends (the URL, the merged headers, the
  body when it is truthy, the timeout) and the retry budget, each with the client's default
  where the configuration has none. Log lines are not modelled.
\<close>

definition prepare :: "HttpClient \<Rightarrow> HttpRequestConfig \<Rightarrow> fetch_request" where
  "prepare c cfg =
     \<lparr>f_url = buildUrl c (rq_url cfg),
      f_method = rq_method cfg,
      f_headers = spread (hc_defaultHeaders c) (case rq_headers cfg of None \<Rightarrow> [] | Some h \<Rightarrow> h),
      f_body = (case rq_body cfg of
                  None \<Rightarrow> None
                | Some b \<Rightarrow> if b \<in> {Undefined, JNull, JBool False, JNum 0, JStr []} then None
                            else Some b),
      f_timeout = (case rq_timeout cfg of
                     None \<Rightarrow> hc_timeout c
                   | Some t \<Rightarrow> if t = 0 then hc_timeout c else t)\<rparr>"

definition maxRetries_of :: "HttpClient \<Rightarrow> HttpRequestConfig \<Rightarrow> int" where
  "maxRetries_of c cfg = (case rq_retries cfg of None \<Rightarrow> hc_retries c | Some r \<Rightarrow> r)"

definition request ::
  "HttpClient \<Rightarrow> transport \<Rightarrow> HttpRequestConfig \<Rightarrow> (error + HttpResponse) \<times> run_log" where
  "request c net cfg =
     request_loop net (prepare c cfg) (maxRetries_of c cfg) 0 None \<lparr>fetch_calls = 0, delays = []\<rparr>"

definition HttpClient_get ::
  "HttpClient \<Rightarrow> transport \<Rightarrow> string \<Rightarrow> (string \<times> string) list option
     \<Rightarrow> (error + HttpResponse) \<times> run_log" where
  "HttpClient_get c net url hdrs =
     request c net \<lparr>rq_method = GET, rq_url = url, rq_headers = hdrs, rq_body = None,
                    rq_timeout = None, rq_retries = None\<rparr>"

section \<open>BaseAPI\<close>

record BaseAPI =
  httpClient :: HttpClient
  baseUrl :: string
  serviceName :: string

definition new_BaseAPI ::
  "ConfigManager \<Rightarrow> string \<Rightarrow> string option \<Rightarrow> (string \<times> string) list option \<Rightarrow> BaseAPI" where
  "new_BaseAPI cm name url hdrs =
     (let b = (case url of None \<Rightarrow> getBaseUrl cm | Some u \<Rightarrow> or_str u (getBaseUrl cm))
      in \<lparr>httpClient = new_HttpClient cm (Some b) hdrs None None, baseUrl = b, serviceName = name\<rparr>)"

definition BaseAPI_get ::
  "BaseAPI \<Rightarrow> transport \<Rightarrow> string \<Rightarrow> error + HttpResponse" where
  "BaseAPI_get api net ep = fst (HttpClient_get (httpClient api) net ep None)"

definition validateResponse :: "HttpResponse \<Rightarrow> (int + int list) option \<Rightarrow> error + unit" where
  "validateResponse response expectedStatus =
     (case expectedStatus of
        None \<Rightarrow> Inr ()
      | Some (Inl n) \<Rightarrow> if n = 0 then Inr () else validateStatus response (Inl n)
      | Some (Inr ns) \<Rightarrow> validateStatus response (Inr ns))"

section \<open>HackerNewsClient\<close>

definition new_HackerNewsClient :: "ConfigManager \<Rightarrow> string option \<Rightarrow> BaseAPI" where
  "new_HackerNewsClient cm url =
     new_BaseAPI cm ''HackerNews''
       (Some (case url of None \<Rightarrow> ''https://hacker-news.firebaseio.com/v0''
              | Some u \<Rightarrow> or_str u ''https://hacker-news.firebaseio.com/v0''))
       None"

definition getItem :: "host_members \<Rightarrow> BaseAPI \<Rightarrow> transport \<Rightarrow> int \<Rightarrow> error + jsval" where
  "getItem host api net itemId =
     (case BaseAPI_get api net (''/item/'' @ show_int itemId @ ''.json'') of
        Inl e \<Rightarrow> Inl e
      | Inr response \<Rightarrow>
          if \<not> ok response \<or> data response = JNull then Inr JNull
          else (case validateRequired host (data response) [''id''] of
                  Inl e \<Rightarrow> Inl e
                | Inr u \<Rightarrow> Inr (data response)))"

text \<open>
  \<^verbatim>\<open>data.slice(0, limit)\<close> on a decoded payload: arrays and strings have the method, and a
  call on anything else throws a \<^verbatim>\<open>TypeError\<close>.
\<close>

definition data_slice :: "jsval \<Rightarrow> int \<Rightarrow> int \<Rightarrow> error + jsval" where
  "data_slice d start end =
     (case d of
        JArr xs \<Rightarrow> Inr (JArr (slice xs start end))
      | JStr s \<Rightarrow> Inr (JStr (slice s start end))
      | _ \<Rightarrow> Inl (OtherError \<lparr>err_name = ''TypeError'', err_message = ''data.slice is not a function'',
                              err_response = None\<rparr>))"

text \<open>The three list operations that require a non-empty array.\<close>

definition stories_nonempty :: "host_members \<Rightarrow> BaseAPI \<Rightarrow> transport \<Rightarrow> string \<Rightarrow> int \<Rightarrow> error + jsval" where
  "stories_nonempty host api net ep limit =
     (case BaseAPI_get api net ep of
        Inl e \<Rightarrow> Inl e
      | Inr response \<Rightarrow>
          (case validateResponse response (Some (Inl 200)) of
             Inl e \<Rightarrow> Inl e
           | Inr u \<Rightarrow>
               let d = data response
               in (case validateType host (JObj [(''data'', d)]) ''data'' ''array'' of
                     Inl e \<Rightarrow> Inl e
                   | Inr u \<Rightarrow>
                       (case validateArrayNotEmpty host (JObj [(''data'', d)]) ''data'' of
                          Inl e \<Rightarrow> Inl e
                        | Inr u \<Rightarrow> data_slice d 0 limit))))"

text \<open>The three list operations that do not.\<close>

definition stories_any :: "host_members \<Rightarrow> BaseAPI \<Rightarrow> transport \<Rightarrow> string \<Rightarrow> int \<Rightarrow> error + jsval" where
  "stories_any host api net ep limit =
     (case BaseAPI_get api net ep of
        Inl e \<Rightarrow> Inl e
      | Inr response \<Rightarrow>
          (case validateResponse response (Some (Inl 200)) of
             Inl e \<Rightarrow> Inl e
           | Inr u \<Rightarrow>
               let d = data response
               in (case validateType host (JObj [(''data'', d)]) ''data'' ''array'' of
                     Inl e \<Rightarrow> Inl e
                   | Inr u \<Rightarrow> data_slice d 0 limit)))"

text \<open>A missing argument takes the default of the parameter.\<close>

definition getTopStories :: "host_members \<Rightarrow> BaseAPI \<Rightarrow> transport \<Rightarrow> int option \<Rightarrow> error + jsval" where
  "getTopStories host api net limit =
     stories_nonempty host api net ''/topstories.json'' (case limit of None \<Rightarrow> 500 | Some l \<Rightarrow> l)"

definition getNewStories :: "host_members \<Rightarrow> BaseAPI \<Rightarrow> transport \<Rightarrow> int option \<Rightarrow> error + jsval" where
  "getNewStories host api net limit =
     stories_nonempty host api net ''/newstories.json'' (case limit of None \<Rightarrow> 10 | Some l \<Rightarrow> l)"

definition getBestStories :: "host_members \<Rightarrow> BaseAPI \<Rightarrow> transport \<Rightarrow> int option \<Rightarrow> error + jsval" where
  "getBestStories host api net limit =
     stories_nonempty host api net ''/beststories.json'' (case limit of None \<Rightarrow> 10 | Some l \<Rightarrow> l)"

definition getAskStories :: "host_members \<Rightarrow> BaseAPI \<Rightarrow> transport \<Rightarrow> int option \<Rightarrow> error + jsval" where
  "getAskStories host api net limit =
     stories_any host api net ''/askstories.json'' (case limit of None \<Rightarrow> 10 | Some l \<Rightarrow> l)"

definition getShowStories :: "host_members \<Rightarrow> BaseAPI \<Rightarrow> transport \<Rightarrow> int option \<Rightarrow> error + jsval" where
  "getShowStories host api net limit =
     stories_any host api net ''/showstories.json'' (case limit of None \<Rightarrow> 10 | Some l \<Rightarrow> l)"

definition getJobStories :: "host_members \<Rightarrow> BaseAPI \<Rightarrow> transport \<Rightarrow> int option \<Rightarrow> error + jsval" where
  "getJobStories host api net limit =
     stories_any host api net ''/jobstories.json'' (case limit of None \<Rightarrow> 10 | Some l \<Rightarrow> l)"

section \<open>Schema checker\<close>

text \<open>
  The schemas are JSON Schema documents compiled by the validator library with its default
  options. A schema is represented with the keywords these documents use: \<^verbatim>\<open>type\<close>,
  \<^verbatim>\<open>enum\<close>, \<^verbatim>\<open>const\<close>, \<^verbatim>\<open>items\<close>, \<^verbatim>\<open>properties\<close>, \<^verbatim>\<open>required\<close> and
  \<^verbatim>\<open>additionalProperties\<close> (true when it is not written).
\<close>

datatype schema = Schema
  (s_type: "string option")
  (s_enum: "jsval list option")
  (s_const: "jsval option")
  (s_items: "schema option")
  (s_properties: "(string \<times> schema) list")
  (s_required: "string list")
  (s_additionalProperties: bool)

fun has_type :: "string \<Rightarrow> jsval \<Rightarrow> bool" where
  "has_type t (JObj kvs) = (t = ''object'')"
| "has_type t (JArr xs) = (t = ''array'')"
| "has_type t (JStr s) = (t = ''string'')"
| "has_type t (JNum n) = (t = ''number'' \<or> t = ''integer'')"
| "has_type t (JBool b) = (t = ''boolean'')"
| "has_type t JNull = (t = ''null'')"
| "has_type t Undefined = False"
| "has_type t (JFunction n) = False"

text \<open>
  The keywords for arrays apply to arrays only and those for objects to objects only.
  A property is checked against its schema when reading it gives a value other than
  \<^verbatim>\<open>undefined\<close>, and a required property must give one; the compiled check reads with
  \<^verbatim>\<open>data.prop\<close>, so an inherited member counts as well. With \<^verbatim>\<open>additionalProperties: false\<close>
  every key of the object must be declared under \<^verbatim>\<open>properties\<close>; the keys are the own
  ones, since the prototypes of the language have no enumerable member.
\<close>

fun valid :: "host_members \<Rightarrow> schema \<Rightarrow> jsval \<Rightarrow> bool" where
  "valid host (Schema ty en co it props req addl) v =
     ((case ty of None \<Rightarrow> True | Some t \<Rightarrow> has_type t v)
      \<and> (case en of None \<Rightarrow> True | Some vs \<Rightarrow> v \<in> set vs)
      \<and> (case co of None \<Rightarrow> True | Some c \<Rightarrow> v = c)
      \<and> (case v of
            JArr xs \<Rightarrow> (case it of None \<Rightarrow> True | Some s \<Rightarrow> list_all (valid host s) xs)
          | JObj kvs \<Rightarrow>
              list_all (\<lambda>ks. getProp host v (fst ks) = Undefined \<or> valid host (snd ks) (getProp host v (fst ks))) props
              \<and> list_all (\<lambda>k. getProp host v k \<noteq> Undefined) req
              \<and> (addl \<or> list_all (\<lambda>k. k \<in> set (map fst props)) (map fst kvs))
          | _ \<Rightarrow> True))"

definition typed :: "string \<Rightarrow> schema" where
  "typed t = Schema (Some t) None None None [] [] True"

definition array_of :: "schema \<Rightarrow> schema" where
  "array_of s = Schema (Some ''array'') None None (Some s) [] [] True"

definition itemSchema :: schema where
  "itemSchema =
     Schema (Some ''object'') None None None
       [(''id'', typed ''number''),
        (''type'', Schema (Some ''string'')
                     (Some [JStr ''job'', JStr ''story'', JStr ''comment'', JStr ''poll'', JStr ''pollopt''])
                     None None [] [] True),
        (''by'', typed ''string''),
        (''time'', typed ''number''),
        (''text'', typed ''string''),
        (''dead'', typed ''boolean''),
        (''parent'', typed ''number''),
        (''poll'', typed ''number''),
        (''kids'', array_of (typed ''number'')),
        (''url'', typed ''string''),
        (''score'', typed ''number''),
        (''title'', typed ''string''),
        (''parts'', array_of (typed ''number'')),
        (''descendants'', typed ''number''),
        (''deleted'', typed ''boolean'')]
       [''id'']
       False"

definition const_string :: "string \<Rightarrow> schema" where
  "const_string c = Schema (Some ''string'') None (Some (JStr c)) None [] [] True"

definition storySchema :: schema where
  "storySchema =
     Schema (Some ''object'') None None None
       (spread (s_properties itemSchema)
          [(''type'', const_string ''story''),
           (''title'', typed ''string''),
           (''by'', typed ''string''),
           (''time'', typed ''number'')])
       [''id'', ''type'', ''title'', ''by'', ''time'']
       False"

definition commentSchema :: schema where
  "commentSchema =
     Schema (Some ''object'') None None None
       (spread (s_properties itemSchema)
          [(''type'', const_string ''comment''),
           (''by'', typed ''string''),
           (''parent'', typed ''number''),
           (''text'', typed ''string''),
           (''time'', typed ''number'')])
       [''id'', ''type'', ''by'', ''parent'', ''text'', ''time'']
       False"

definition jobSchema :: schema where
  "jobSchema =
     Schema (Some ''object'') None None None
       (spread (s_properties itemSchema)
          [(''type'', const_string ''job''),
           (''title'', typed ''string''),
           (''by'', typed ''string''),
           (''time'', typed ''number'')])
       [''id'', ''type'', ''title'', ''by'', ''time'']
       False"

definition userSchema :: schema where
  "userSchema =
     Schema (Some ''object'') None None None
       [(''id'', typed ''string''),
        (''created'', typed ''number''),
        (''karma'', typed ''number''),
        (''about'', typed ''string''),
        (''submitted'', array_of (typed ''number''))]
       [''id'', ''created'', ''karma'']
       False"

definition validateItem :: "host_members \<Rightarrow> jsval \<Rightarrow> bool" where
  "validateItem host v = valid host itemSchema v"

definition validateStory :: "host_members \<Rightarrow> jsval \<Rightarrow> bool" where
  "validateStory host v = valid host storySchema v"

definition validateComment :: "host_members \<Rightarrow> jsval \<Rightarrow> bool" where
  "validateComment host v = valid host commentSchema v"

definition validateJob :: "host_members \<Rightarrow> jsval \<Rightarrow> bool" where
  "validateJob host v = valid host jobSchema v"

definition validateUser :: "host_members \<Rightarrow> jsval \<Rightarrow> bool" where
  "validateUser host v = valid host userSchema v"

section \<open>Example inputs\<close>

text \<open>
  The configuration of a run with no environment variable set, the client built on it, and
  transports that answer every attempt with the same JSON response.
\<close>

definition demo_config :: ConfigManager where
  "demo_config =
     \<lparr>config = \<lparr>environment = \<lparr>env_name = ''dev'',
                                  env_baseUrl = ''https://hacker-news.firebaseio.com/v0'',
                                  env_timeout = Some 30000, env_retries = Some 2, env_headers = None\<rparr>,
                logging = \<lparr>level = ''INFO'', enabled = True\<rparr>,
                reporting = \<lparr>outputDir = ''./reports'', format = [''html'', ''json'']\<rparr>\<rparr>,
      environments = loadEnvironments\<rparr>"

definition demo_client :: BaseAPI where
  "demo_client = new_HackerNewsClient demo_config None"

definition json_reply :: "int \<Rightarrow> string \<Rightarrow> jsval \<Rightarrow> raw_response" where
  "json_reply st txt v =
     \<lparr>r_status = st, r_statusText = txt,
      r_headers = [(''content-type'', ''application/json; charset=utf-8'')],
      r_json = Inr v, r_text = []\<rparr>"

definition json_server :: "int \<Rightarrow> string \<Rightarrow> jsval \<Rightarrow> transport" where
  "json_server st txt v rq attempt = Inr (json_reply st txt v)"

definition ok_envelope :: "jsval \<Rightarrow> HttpResponse" where
  "ok_envelope v =
     \<lparr>status = 200, statusText = ''OK'',
      headers = [(''content-type'', ''application/json; charset=utf-8'')],
      data = v, ok = True\<rparr>"

definition demo_request :: HttpRequestConfig where
  "demo_request =
     \<lparr>rq_method = GET, rq_url = ''/maxitem.json'', rq_headers = None, rq_body = None,
      rq_timeout = None, rq_retries = None\<rparr>"

text \<open>A transport that answers 503, then fails on the network, then answers 200.\<close>

definition flaky_server :: transport where
  "flaky_server rq attempt =
     (if attempt = 0 then Inr (json_reply 503 ''Service Unavailable'' JNull)
      else if attempt = 1
      then Inl \<lparr>err_name = ''TypeError'', err_message = ''fetch failed'', err_response = None\<rparr>
      else Inr (json_reply 200 ''OK'' (JNum 42)))"

text \<open>A transport that answers every attempt with status 404 and a JSON body that does not parse.\<close>

definition bad_json_server :: transport where
  "bad_json_server rq attempt =
     Inr \<lparr>r_status = 404, r_statusText = ''Not Found'',
          r_headers = [(''content-type'', ''application/json; charset=utf-8'')],
          r_json = Inl \<lparr>err_name = ''SyntaxError'', err_message = ''Unexpected token < in JSON'',
                         err_response = None\<rparr>,
          r_text = ''<html>''\<rparr>"

text \<open>
  A host in which every value inherits the functions of \<^verbatim>\<open>Object.prototype\<close>, each a
  function of its own, and nothing else.
\<close>

definition object_prototype :: "string list" where
  "object_prototype =
     [''constructor'', ''hasOwnProperty'', ''isPrototypeOf'', ''propertyIsEnumerable'',
      ''toLocaleString'', ''toString'', ''valueOf'']"

definition object_host :: host_members where
  "object_host v p =
     (if p \<in> set object_prototype then JFunction (length (takeWhile (\<lambda>q. q \<noteq> p) object_prototype))
      else Undefined)"


definition demo_story :: jsval where
  "demo_story =
     JObj [(''by'', JStr ''dhouston''), (''descendants'', JNum 71), (''id'', JNum 8863),
           (''kids'', JArr [JNum 9224, JNum 8917]), (''score'', JNum 104),
           (''time'', JNum 1175714200), (''title'', JStr ''My YC app: Dropbox''),
           (''type'', JStr ''story''), (''url'', JStr ''http://www.getdropbox.com/u/2/screencast.html'')]"

section \<open>Checking a record field by field\<close>

text \<open>
  The fields of an item with the type each is declared with, and the check of a record
  field by field with the validators of \<^verbatim>\<open>ResponseValidator\<close>: the required fields pass
  \<^verbatim>\<open>validateRequired\<close>, every field that is there passes \<^verbatim>\<open>validateType\<close> for its declared
  type, and the elements of the two arrays are numbers.
\<close>

definition item_field_types :: "(string \<times> string) list" where
  "item_field_types =
     [(''id'', ''number''), (''type'', ''string''), (''by'', ''string''), (''time'', ''number''),
      (''text'', ''string''), (''dead'', ''boolean''), (''parent'', ''number''), (''poll'', ''number''),
      (''kids'', ''array''), (''url'', ''string''), (''score'', ''number''), (''title'', ''string''),
      (''parts'', ''array''), (''descendants'', ''number''), (''deleted'', ''boolean'')]"

definition checked_field_by_field :: "host_members \<Rightarrow> jsval \<Rightarrow> string list \<Rightarrow> bool" where
  "checked_field_by_field host v req \<longleftrightarrow>
     validateRequired host v req = Inr ()
     \<and> list_all (\<lambda>kt. getNestedValue host v (fst kt) = Undefined \<or> validateType host v (fst kt) (snd kt) = Inr ())
         item_field_types
     \<and> list_all (\<lambda>k. case getNestedValue host v k of
                        JArr xs \<Rightarrow> list_all (\<lambda>e. typeof e = ''number'') xs
                      | _ \<Rightarrow> True)
         [''kids'', ''parts'']"

text \<open>
  The properties of \<^verbatim>\<open>storySchema\<close>, \<^verbatim>\<open>commentSchema\<close> and \<^verbatim>\<open>jobSchema\<close> after the spread:
  those of \<^verbatim>\<open>itemSchema\<close>, with the constant in place of the enumeration under \<^verbatim>\<open>type\<close>.
\<close>

definition item_like_properties :: "string \<Rightarrow> (string \<times> schema) list" where
  "item_like_properties c =
     [(''id'', typed ''number''), (''type'', const_string c), (''by'', typed ''string''),
      (''time'', typed ''number''), (''text'', typed ''string''), (''dead'', typed ''boolean''),
      (''parent'', typed ''number''), (''poll'', typed ''number''),
      (''kids'', array_of (typed ''number'')), (''url'', typed ''string''),
      (''score'', typed ''number''), (''title'', typed ''string''),
      (''parts'', array_of (typed ''number'')), (''descendants'', typed ''number''),
      (''deleted'', typed ''boolean'')]"

section \<open>Invariants\<close>

text \<open>
  What every configuration reachable from the constructor satisfies: the three profiles are
  the registered ones, and they share the base URL and the timeout.
\<close>

definition config_inv :: "ConfigManager \<Rightarrow> bool" where
  "config_inv cm \<longleftrightarrow>
     environments cm = loadEnvironments
     \<and> env_baseUrl (environment (config cm)) = ''https://hacker-news.firebaseio.com/v0''
     \<and> env_timeout (environment (config cm)) = Some 30000"

section \<open>Facts about the example inputs\<close>

lemma demo_client_eq:
  "demo_client =
     \<lparr>httpClient = \<lparr>hc_baseUrl = ''https://hacker-news.firebaseio.com/v0'',
                     hc_defaultHeaders = [(''Content-Type'', ''application/json'')],
                     hc_timeout = 30000, hc_retries = 2\<rparr>,
      baseUrl = ''https://hacker-news.firebaseio.com/v0'',
      serviceName = ''HackerNews''\<rparr>"
  by (simp add: demo_client_def new_HackerNewsClient_def new_BaseAPI_def new_HttpClient_def
        demo_config_def getRetries_def getTimeout_def getHeaders_def getBaseUrl_def or_str_def
        spread_def Let_def)

lemma demo_config_start: "new_ConfigManager (\<lambda>k. None) = Inr demo_config"
  by (simp add: new_ConfigManager_def initializeConfig_def env_or_def loadEnvironments_def
        demo_config_def)

lemma attempt_json_ok:
  "200 \<le> st \<Longrightarrow> st \<le> 299 \<Longrightarrow>
   attempt_once (json_server st txt v) rq k =
     Inr \<lparr>status = st, statusText = txt,
          headers = [(''content-type'', ''application/json; charset=utf-8'')], data = v, ok = True\<rparr>"
  by (simp add: attempt_once_def json_server_def json_reply_def decode_body_def r_ok_def)

lemma attempt_json_fail:
  "\<not> (200 \<le> st \<and> st \<le> 299) \<Longrightarrow>
   attempt_once (json_server st txt v) rq k =
     Inl (APIError st (''HTTP '' @ show_int st @ '': '' @ txt) (f_url rq) v)"
  by (simp add: attempt_once_def json_server_def json_reply_def decode_body_def r_ok_def)

lemma demo_get_status:
  "200 \<le> st \<Longrightarrow> st \<le> 299 \<Longrightarrow>
   BaseAPI_get demo_client (json_server st txt v) ep
     = Inr \<lparr>status = st, statusText = txt,
            headers = [(''content-type'', ''application/json; charset=utf-8'')], data = v, ok = True\<rparr>"
  by (simp add: BaseAPI_get_def HttpClient_get_def request_def demo_client_eq maxRetries_of_def
        request_loop.simps[of _ _ _ 0] attempt_json_ok)

lemma demo_get:
  "BaseAPI_get demo_client (json_server 200 ''OK'' v) ep = Inr (ok_envelope v)"
  by (simp add: demo_get_status ok_envelope_def)

section \<open>The list operations\<close>

lemma getNestedValue_data: "getNestedValue host (JObj [(''data'', d)]) ''data'' = d"
  by (simp add: getNestedValue_def)

lemma validateResponse_200: "status r = 200 \<Longrightarrow> validateResponse r (Some (Inl 200)) = Inr ()"
  by (simp add: validateResponse_def validateStatus_def)

lemma validateType_array: "validateType host (JObj [(''data'', JArr xs)]) ''data'' ''array'' = Inr ()"
  by (simp add: validateType_def getNestedValue_data)

lemma validateArrayNotEmpty_data:
  "validateArrayNotEmpty host (JObj [(''data'', JArr xs)]) ''data'' =
     (if xs = []
      then Inl (ValidationError (''Array field '' @ quoted ''data'' @ '' should not be empty'')
                  (Some ''data'') (JObj [(''value'', JArr [])]))
      else Inr ())"
  by (simp add: validateArrayNotEmpty_def getNestedValue_data)

lemma slice_nonneg: "0 \<le> L \<Longrightarrow> slice xs 0 L = take (nat L) xs"
  by (simp add: slice_def rel_index_def min_def)

lemma slice_neg: "L < 0 \<Longrightarrow> slice xs 0 L = take (length xs - nat (- L)) xs"
  by (auto simp: slice_def rel_index_def max_def nat_diff_distrib' nat_add_distrib
        intro!: arg_cong2[where f=take])


lemma stories_any_200:
  "BaseAPI_get api net ep = Inr r \<Longrightarrow> status r = 200 \<Longrightarrow> data r = JArr xs \<Longrightarrow>
   stories_any host api net ep L = Inr (JArr (slice xs 0 L))"
  by (simp add: stories_any_def validateResponse_200 validateType_array data_slice_def)

lemma stories_nonempty_200:
  "BaseAPI_get api net ep = Inr r \<Longrightarrow> status r = 200 \<Longrightarrow> data r = JArr xs \<Longrightarrow>
   stories_nonempty host api net ep L =
     (if xs = []
      then Inl (ValidationError (''Array field '' @ quoted ''data'' @ '' should not be empty'')
                  (Some ''data'') (JObj [(''value'', JArr [])]))
      else Inr (JArr (slice xs 0 L)))"
  by (simp add: stories_nonempty_def validateResponse_200 validateType_array
        validateArrayNotEmpty_data data_slice_def)

text \<open>
  C3, as the code has it. For a limit \<open>L \<ge> 0\<close> and an array payload delivered with
  status 200, \<^verbatim>\<open>getAskStories\<close>, \<^verbatim>\<open>getShowStories\<close> and \<^verbatim>\<open>getJobStories\<close> return the first
  \<open>min L N\<close> elements of the payload in the server's order, for every payload;
  \<^verbatim>\<open>getTopStories\<close>, \<^verbatim>\<open>getNewStories\<close> and \<^verbatim>\<open>getBestStories\<close> do so for every payload
  that is not empty. \<open>L = 0\<close> gives the empty list and \<open>L > N\<close> the whole payload.
\<close>

theorem story_lists_truncate:
  assumes "0 \<le> L" and "status r = 200" and "data r = JArr xs"
  shows "(BaseAPI_get api net ''/askstories.json'' = Inr r \<longrightarrow>
            getAskStories host api net (Some L) = Inr (JArr (take (nat L) xs)))
       \<and> (BaseAPI_get api net ''/showstories.json'' = Inr r \<longrightarrow>
            getShowStories host api net (Some L) = Inr (JArr (take (nat L) xs)))
       \<and> (BaseAPI_get api net ''/jobstories.json'' = Inr r \<longrightarrow>
            getJobStories host api net (Some L) = Inr (JArr (take (nat L) xs)))
       \<and> (xs \<noteq> [] \<longrightarrow> BaseAPI_get api net ''/topstories.json'' = Inr r \<longrightarrow>
            getTopStories host api net (Some L) = Inr (JArr (take (nat L) xs)))
       \<and> (xs \<noteq> [] \<longrightarrow> BaseAPI_get api net ''/newstories.json'' = Inr r \<longrightarrow>
            getNewStories host api net (Some L) = Inr (JArr (take (nat L) xs)))
       \<and> (xs \<noteq> [] \<longrightarrow> BaseAPI_get api net ''/beststories.json'' = Inr r \<longrightarrow>
            getBestStories host api net (Some L) = Inr (JArr (take (nat L) xs)))
       \<and> length (take (nat L) xs) = min (nat L) (length xs)
       \<and> (L = 0 \<longrightarrow> take (nat L) xs = [])
       \<and> (int (length xs) < L \<longrightarrow> take (nat L) xs = xs)"
  using assms
  by (simp add: getAskStories_def getShowStories_def getJobStories_def getTopStories_def
        getNewStories_def getBestStories_def stories_any_200 stories_nonempty_200 slice_nonneg)

theorem story_lists_truncate_witness:
  "getAskStories object_host demo_client (json_server 200 ''OK'' (JArr [JNum 3, JNum 1, JNum 2])) (Some 2)
     = Inr (JArr [JNum 3, JNum 1])
   \<and> getTopStories object_host demo_client (json_server 200 ''OK'' (JArr [JNum 3, JNum 1, JNum 2])) (Some 2)
     = Inr (JArr [JNum 3, JNum 1])"
  using story_lists_truncate [where L = 2 and r = "ok_envelope (JArr [JNum 3, JNum 1, JNum 2])"
          and xs = "[JNum 3, JNum 1, JNum 2]" and api = demo_client and host = object_host
          and net = "json_server 200 ''OK'' (JArr [JNum 3, JNum 1, JNum 2])"]
  by (simp add: demo_get) (simp add: ok_envelope_def)

text \<open>
  C3 as stated fails on the empty payload: with limit 0, \<^verbatim>\<open>getTopStories\<close> throws a
  \<^verbatim>\<open>ValidationError\<close> where the claim has it return the empty list.
\<close>

theorem empty_top_stories_counterexample:
  "getTopStories object_host demo_client (json_server 200 ''OK'' (JArr [])) (Some 0)
     = Inl (ValidationError (''Array field '' @ quoted ''data'' @ '' should not be empty'')
              (Some ''data'') (JObj [(''value'', JArr [])]))"
  by (simp add: getTopStories_def stories_nonempty_200 [OF demo_get] ok_envelope_def)

text \<open>
  C9, as the code has it. For a negative limit \<open>n\<close> and an array payload of length \<open>N\<close>
  delivered with status 200, \<^verbatim>\<open>getTopStories(n)\<close> on a payload that is not empty does not
  throw and returns the payload without its last \<open>|n|\<close> elements, of length
  \<open>max (N + n) 0\<close>; that list is empty exactly when \<open>N \<le> |n|\<close>. On the empty payload it
  throws the \<^verbatim>\<open>ValidationError\<close> of the non-empty check.
\<close>

theorem negative_limit_drops_tail:
  assumes "n < 0" and "BaseAPI_get api net ''/topstories.json'' = Inr r"
    and "status r = 200" and "data r = JArr xs"
  shows "(xs \<noteq> [] \<longrightarrow>
            getTopStories host api net (Some n) = Inr (JArr (rev (drop (nat (- n)) (rev xs)))))
       \<and> int (length (rev (drop (nat (- n)) (rev xs)))) = max (int (length xs) + n) 0
       \<and> (rev (drop (nat (- n)) (rev xs)) = [] \<longleftrightarrow> int (length xs) \<le> - n)
       \<and> (xs = [] \<longrightarrow>
            getTopStories host api net (Some n)
              = Inl (ValidationError (''Array field '' @ quoted ''data'' @ '' should not be empty'')
                       (Some ''data'') (JObj [(''value'', JArr [])])))"
  using assms
  by (auto simp: getTopStories_def stories_nonempty_200 slice_neg rev_drop)

theorem negative_limit_drops_tail_witness:
  "getTopStories object_host demo_client (json_server 200 ''OK'' (JArr [JNum 3, JNum 1, JNum 2])) (Some (- 1))
     = Inr (JArr [JNum 3, JNum 1])"
  using negative_limit_drops_tail [where n = "- 1" and api = demo_client and host = object_host
          and net = "json_server 200 ''OK'' (JArr [JNum 3, JNum 1, JNum 2])"
          and r = "ok_envelope (JArr [JNum 3, JNum 1, JNum 2])" and xs = "[JNum 3, JNum 1, JNum 2]"]
  by (simp add: demo_get) (simp add: ok_envelope_def)

text \<open>
  C9 as stated fails when the payload has no more than \<open>|n|\<close> elements: the result is
  the empty list.
\<close>

theorem negative_limit_empty_counterexample:
  "getTopStories object_host demo_client (json_server 200 ''OK'' (JArr [JNum 1, JNum 2])) (Some (- 3))
     = Inr (JArr [])"
  by (simp add: getTopStories_def stories_nonempty_200 [OF demo_get] ok_envelope_def slice_neg)




section \<open>The retry loop\<close>

lemma loop_calls:
  "fetch_calls (snd (request_loop net rq m a le lg)) \<le> fetch_calls lg + nat (m + 1 - int a)"
proof (induction net rq m a le lg rule: request_loop.induct)
  case (1 net rq maxRetries attempt lastError lg)
  show ?case
  proof (cases "int attempt \<le> maxRetries")
    case False
    then show ?thesis by (simp add: request_loop.simps[of net rq maxRetries attempt])
  next
    case True
    show ?thesis
    proof (cases "attempt_once net rq attempt")
      case (Inr resp)
      with True show ?thesis
        by (auto simp add: request_loop.simps[of net rq maxRetries attempt] Let_def)
    next
      case (Inl err)
      show ?thesis
      proof (cases "int attempt = maxRetries")
        case True
        with Inl show ?thesis
          by (auto simp add: request_loop.simps[of net rq maxRetries attempt] Let_def)
      next
        case False
        with True Inl "1.IH"[OF True refl refl Inl False] show ?thesis
          by (auto simp add: request_loop.simps[of net rq maxRetries attempt] Let_def)
      qed
    qed
  qed
qed

lemma loop_success:
  "a \<le> k \<Longrightarrow> int k \<le> m \<Longrightarrow> (\<forall>j. a \<le> j \<and> j < k \<longrightarrow> isl (attempt_once net rq j)) \<Longrightarrow>
   attempt_once net rq k = Inr resp \<Longrightarrow>
   fst (request_loop net rq m a le lg) = Inr resp
   \<and> fetch_calls (snd (request_loop net rq m a le lg)) = fetch_calls lg + (k + 1 - a)"
proof (induction "k - a" arbitrary: a le lg)
  case 0
  then have "a = k" by simp
  with 0 show ?case
    by (simp add: request_loop.simps[of net rq m k] Let_def)
next
  case (Suc d)
  then have lt: "a < k" by simp
  with Suc.prems obtain err where err: "attempt_once net rq a = Inl err"
    by (cases "attempt_once net rq a") auto
  have step: "request_loop net rq m a le lg =
      request_loop net rq m (Suc a) (Some err)
        ((if a > 0 then lg\<lparr>delays := delays lg @ [1000 * int a]\<rparr> else lg)
           \<lparr>fetch_calls := Suc (fetch_calls (if a > 0 then lg\<lparr>delays := delays lg @ [1000 * int a]\<rparr> else lg))\<rparr>)"
    using lt Suc.prems(2) err
    by (simp add: request_loop.simps[of net rq m a] Let_def)
  have "d = k - Suc a" using Suc.hyps(2) by simp
  from Suc.hyps(1)[OF this, of "Some err"] lt Suc.prems
  show ?case unfolding step by auto
qed

lemma loop_exhaust:
  "int a \<le> m \<Longrightarrow> (\<forall>j. a \<le> j \<and> int j \<le> m \<longrightarrow> isl (attempt_once net rq j)) \<Longrightarrow>
   fst (request_loop net rq m a le lg)
     = Inl (handleAPIError (projl (attempt_once net rq (nat m))) (f_url rq))
   \<and> fetch_calls (snd (request_loop net rq m a le lg)) = fetch_calls lg + nat (m + 1 - int a)"
proof (induction "nat (m - int a)" arbitrary: a le lg)
  case 0
  then have am: "int a = m" by simp
  with 0 obtain err where err: "attempt_once net rq a = Inl err"
    by (cases "attempt_once net rq a") auto
  have "nat m = a" using am by auto
  with am err show ?case
    by (simp add: request_loop.simps[of net rq m a] Let_def)
next
  case (Suc d)
  then have lt: "int a < m" by simp
  with Suc.prems obtain err where err: "attempt_once net rq a = Inl err"
    by (cases "attempt_once net rq a") auto
  have step: "request_loop net rq m a le lg =
      request_loop net rq m (Suc a) (Some err)
        ((if a > 0 then lg\<lparr>delays := delays lg @ [1000 * int a]\<rparr> else lg)
           \<lparr>fetch_calls := Suc (fetch_calls (if a > 0 then lg\<lparr>delays := delays lg @ [1000 * int a]\<rparr> else lg))\<rparr>)"
    using lt err
    by (simp add: request_loop.simps[of net rq m a] Let_def)
  have "d = nat (m - int (Suc a))" using Suc.hyps(2) by simp
  from Suc.hyps(1)[OF this, of "Some err"] lt Suc.prems
  show ?case unfolding step by (auto simp: nat_diff_distrib' Suc_diff_le nat_add_distrib)
qed

lemma attempt_once_Inr:
  "net rq k = Inr raw \<Longrightarrow> 200 \<le> r_status raw \<Longrightarrow> r_status raw \<le> 299 \<Longrightarrow> decode_body raw = Inr d \<Longrightarrow>
   attempt_once net rq k = Inr \<lparr>status = r_status raw, statusText = r_statusText raw,
                                headers = r_headers raw, data = d, ok = True\<rparr>"
  by (simp add: attempt_once_def r_ok_def)

lemma attempt_once_status:
  "net rq k = Inr raw \<Longrightarrow> decode_body raw = Inr d \<Longrightarrow> isl (attempt_once net rq k) \<Longrightarrow>
   attempt_once net rq k = Inl (APIError (r_status raw)
       (''HTTP '' @ show_int (r_status raw) @ '': '' @ r_statusText raw) (f_url rq) d)"
  by (simp add: attempt_once_def Let_def split: if_splits)

lemma attempt_once_other:
  "net rq k = Inl je \<or> (net rq k = Inr raw \<and> decode_body raw = Inl je) \<Longrightarrow>
   attempt_once net rq k = Inl (OtherError je)"
  by (auto simp add: attempt_once_def)

text \<open>An attempt fails when the transport throws, the body does not decode, or the status is not 2xx.\<close>

lemma attempt_fails_iff:
  "isl (attempt_once net rq k) \<longleftrightarrow>
     (case net rq k of
        Inl e \<Rightarrow> True
      | Inr raw \<Rightarrow> isl (decode_body raw) \<or> \<not> (200 \<le> r_status raw \<and> r_status raw \<le> 299))"
  by (simp add: attempt_once_def r_ok_def Let_def split: sum.splits)

text \<open>
  C2, as the code has it: for every request configuration whose retry budget is not
  negative. \<^verbatim>\<open>request\<close> calls the transport at most \<open>retries + 1\<close> times. If every attempt
  before attempt \<open>k \<le> retries\<close> fails (the transport throws, the body does not decode, or
  the status is not 2xx) and attempt \<open>k\<close> succeeds with a 2xx status, the call returns the
  envelope of attempt \<open>k\<close>, after \<open>k + 1\<close> calls. If all \<open>retries + 1\<close> attempts fail, the call
  throws an \<^verbatim>\<open>APIError\<close>: with the status and body of the last response when the last attempt
  got a response whose body decoded; and when the transport threw or the body of the
  response did not decode (whatever the status of that response), with the status of the
  error's \<^verbatim>\<open>response\<close> property or, in its absence, with 500.
\<close>

theorem request_retry_budget:
  assumes "0 \<le> maxRetries_of c cfg"
  shows "fetch_calls (snd (request c net cfg)) \<le> nat (maxRetries_of c cfg) + 1
       \<and> (int k \<le> maxRetries_of c cfg
            \<and> (\<forall>j<k. isl (attempt_once net (prepare c cfg) j))
            \<and> net (prepare c cfg) k = Inr raw
            \<and> 200 \<le> r_status raw \<and> r_status raw \<le> 299 \<and> decode_body raw = Inr d
          \<longrightarrow> fst (request c net cfg)
                = Inr \<lparr>status = r_status raw, statusText = r_statusText raw,
                       headers = r_headers raw, data = d, ok = True\<rparr>
              \<and> fetch_calls (snd (request c net cfg)) = k + 1)
       \<and> ((\<forall>j. int j \<le> maxRetries_of c cfg \<longrightarrow> isl (attempt_once net (prepare c cfg) j))
          \<longrightarrow> fetch_calls (snd (request c net cfg)) = nat (maxRetries_of c cfg) + 1
              \<and> (net (prepare c cfg) (nat (maxRetries_of c cfg)) = Inr raw'
                    \<and> decode_body raw' = Inr d'
                  \<longrightarrow> fst (request c net cfg)
                        = Inl (APIError (r_status raw')
                                 (''HTTP '' @ show_int (r_status raw') @ '': '' @ r_statusText raw')
                                 (buildUrl c (rq_url cfg)) d'))
              \<and> (net (prepare c cfg) (nat (maxRetries_of c cfg)) = Inl je
                    \<or> (net (prepare c cfg) (nat (maxRetries_of c cfg)) = Inr raw'
                         \<and> decode_body raw' = Inl je)
                  \<longrightarrow> fst (request c net cfg)
                        = Inl (case err_response je of
                                 None \<Rightarrow> APIError 500 (or_str (err_message je) ''Unknown API error'')
                                           (buildUrl c (rq_url cfg)) Undefined
                               | Some (st, b) \<Rightarrow>
                                   APIError st (or_str (err_message je) ''API request failed'')
                                     (buildUrl c (rq_url cfg)) b)))"
proof -
  let ?rq = "prepare c cfg" and ?m = "maxRetries_of c cfg"
  let ?lg = "\<lparr>fetch_calls = 0, delays = []\<rparr>"
  have url: "f_url ?rq = buildUrl c (rq_url cfg)" by (simp add: prepare_def)
  have calls: "fetch_calls (snd (request c net cfg)) \<le> nat ?m + 1"
    using loop_calls [of net ?rq ?m 0 None ?lg] assms by (simp add: request_def nat_add_distrib)
  have success: "fst (request c net cfg)
                = Inr \<lparr>status = r_status raw, statusText = r_statusText raw,
                       headers = r_headers raw, data = d, ok = True\<rparr>
              \<and> fetch_calls (snd (request c net cfg)) = k + 1"
    if "int k \<le> ?m" "\<forall>j<k. isl (attempt_once net ?rq j)" "net ?rq k = Inr raw"
       "200 \<le> r_status raw" "r_status raw \<le> 299" "decode_body raw = Inr d"
    using loop_success [of 0 k ?m net ?rq _ None ?lg] that attempt_once_Inr [of net ?rq k raw d]
    by (simp add: request_def)
  have exhaust: "fst (request c net cfg)
                   = Inl (handleAPIError (projl (attempt_once net ?rq (nat ?m))) (f_url ?rq))
               \<and> fetch_calls (snd (request c net cfg)) = nat ?m + 1"
    if "\<forall>j. int j \<le> ?m \<longrightarrow> isl (attempt_once net ?rq j)"
    using loop_exhaust [of 0 ?m net ?rq None ?lg] that assms
    by (simp add: request_def nat_add_distrib)
  have last_fails: "isl (attempt_once net ?rq (nat ?m))"
    if "\<forall>j. int j \<le> ?m \<longrightarrow> isl (attempt_once net ?rq j)"
    using that assms by simp
  show ?thesis
    using calls success exhaust last_fails
      attempt_once_status [of net ?rq "nat ?m" raw' d']
      attempt_once_other [of net ?rq "nat ?m" je raw']
    by (auto simp add: url)
qed

lemma flaky_attempts:
  "attempt_once flaky_server rq 0 = Inl (APIError 503 (''HTTP '' @ show_int 503 @ '': Service Unavailable'') (f_url rq) JNull)"
  "attempt_once flaky_server rq (Suc 0) = Inl (OtherError \<lparr>err_name = ''TypeError'', err_message = ''fetch failed'', err_response = None\<rparr>)"
  by (simp_all add: attempt_once_def flaky_server_def json_reply_def decode_body_def r_ok_def)

theorem request_retry_budget_witness:
  "fst (request (httpClient demo_client) flaky_server demo_request) = Inr (ok_envelope (JNum 42))
   \<and> fetch_calls (snd (request (httpClient demo_client) flaky_server demo_request)) = 3
   \<and> fst (request (httpClient demo_client) (json_server 503 ''Service Unavailable'' JNull) demo_request)
       = Inl (APIError 503 (''HTTP '' @ show_int 503 @ '': Service Unavailable'')
                ''https://hacker-news.firebaseio.com/v0/maxitem.json'' JNull)
   \<and> fetch_calls (snd (request (httpClient demo_client) (json_server 503 ''Service Unavailable'' JNull) demo_request)) = 3"
proof -
  have m: "maxRetries_of (httpClient demo_client) demo_request = 2"
    by (simp add: maxRetries_of_def demo_client_eq demo_request_def)
  have u: "buildUrl (httpClient demo_client) (rq_url demo_request)
             = ''https://hacker-news.firebaseio.com/v0/maxitem.json''"
    by (simp add: buildUrl_def demo_client_eq demo_request_def endsWith_def)
  have lt2: "j < 2 \<longleftrightarrow> j = 0 \<or> j = Suc 0" for j :: nat by auto
  have a: "\<forall>j<2. isl (attempt_once flaky_server (prepare (httpClient demo_client) demo_request) j)"
    by (simp add: lt2 flaky_attempts)
  have b: "\<forall>j. int j \<le> 2 \<longrightarrow>
      isl (attempt_once (json_server 503 ''Service Unavailable'' JNull)
             (prepare (httpClient demo_client) demo_request) j)"
    by (simp add: attempt_json_fail)
  show ?thesis
    using request_retry_budget [of "httpClient demo_client" demo_request flaky_server 2
            "json_reply 200 ''OK'' (JNum 42)" "JNum 42"]
          request_retry_budget [of "httpClient demo_client" demo_request
            "json_server 503 ''Service Unavailable'' JNull" 0 _ _
            "json_reply 503 ''Service Unavailable'' JNull" JNull]
          a b
    by (simp add: m u flaky_server_def json_server_def json_reply_def decode_body_def ok_envelope_def)
qed

text \<open>
  C2 as stated fails in two places. With \<^verbatim>\<open>retries: -1\<close> the loop body never runs, the
  transport is not called, and \<^verbatim>\<open>throw lastError\<close> throws \<^verbatim>\<open>undefined\<close>, which is no
  \<^verbatim>\<open>APIError\<close>. And a last response with status 404 whose JSON body does not parse ends in
  an \<^verbatim>\<open>APIError\<close> with status 500, not 404: the body is decoded before the status is
  looked at, and the error of the decoding has no status.
\<close>

theorem retry_claim_counterexample:
  "request (httpClient demo_client) (json_server 200 ''OK'' (JNum 42))
     (demo_request\<lparr>rq_retries := Some (- 1)\<rparr>)
   = (Inl ThrownUndefined, \<lparr>fetch_calls = 0, delays = []\<rparr>)
   \<and> fst (request (httpClient demo_client) bad_json_server demo_request)
     = Inl (APIError 500 ''Unexpected token < in JSON''
              ''https://hacker-news.firebaseio.com/v0/maxitem.json'' Undefined)"
proof -
  let ?rq = "prepare (httpClient demo_client) demo_request"
  have u: "f_url ?rq = ''https://hacker-news.firebaseio.com/v0/maxitem.json''"
    by (simp add: prepare_def buildUrl_def demo_client_eq demo_request_def endsWith_def)
  have a: "attempt_once bad_json_server ?rq j
             = Inl (OtherError \<lparr>err_name = ''SyntaxError'',
                                 err_message = ''Unexpected token < in JSON'',
                                 err_response = None\<rparr>)" for j
    by (simp add: attempt_once_def bad_json_server_def decode_body_def)
  have "fst (request_loop bad_json_server ?rq 2 0 None \<lparr>fetch_calls = 0, delays = []\<rparr>)
          = Inl (handleAPIError (projl (attempt_once bad_json_server ?rq (nat 2))) (f_url ?rq))"
    using loop_exhaust [of 0 2 bad_json_server ?rq None "\<lparr>fetch_calls = 0, delays = []\<rparr>"]
    by (simp add: a)
  then have b: "fst (request (httpClient demo_client) bad_json_server demo_request)
          = Inl (APIError 500 ''Unexpected token < in JSON''
                   ''https://hacker-news.firebaseio.com/v0/maxitem.json'' Undefined)"
    unfolding a u
    by (simp add: request_def maxRetries_of_def demo_client_eq demo_request_def or_str_def)
  have c: "request (httpClient demo_client) (json_server 200 ''OK'' (JNum 42))
             (demo_request\<lparr>rq_retries := Some (- 1)\<rparr>)
           = (Inl ThrownUndefined, \<lparr>fetch_calls = 0, delays = []\<rparr>)"
    by (simp add: request_def maxRetries_of_def demo_request_def request_loop.simps throw_last_def)
  show ?thesis using b c by simp
qed

section \<open>Fetching an item\<close>

lemma getItem_null_body:
  "BaseAPI_get api net (''/item/'' @ show_int itemId @ ''.json'') = Inr r \<Longrightarrow>
   \<not> ok r \<or> data r = JNull \<Longrightarrow> getItem host api net itemId = Inr JNull"
  by (simp add: getItem_def)

lemma request_never_returns_not_ok:
  "fst (request_loop net rq m a le lg) = Inr r \<Longrightarrow> ok r"
proof (induction net rq m a le lg rule: request_loop.induct)
  case (1 net rq maxRetries attempt lastError lg)
  show ?case
  proof (cases "int attempt \<le> maxRetries")
    case False
    with "1.prems" show ?thesis by (simp add: request_loop.simps[of net rq maxRetries attempt])
  next
    case True
    show ?thesis
    proof (cases "attempt_once net rq attempt")
      case (Inr resp)
      with True "1.prems" show ?thesis
        by (auto simp add: request_loop.simps[of net rq maxRetries attempt] Let_def attempt_once_def
              split: sum.splits if_splits)
    next
      case (Inl err)
      show ?thesis
      proof (cases "int attempt = maxRetries")
        case True
        with Inl "1.prems" show ?thesis
          by (auto simp add: request_loop.simps[of net rq maxRetries attempt] Let_def)
      next
        case False
        with True Inl "1.IH"[OF True refl refl Inl False] "1.prems" show ?thesis
          by (simp add: request_loop.simps[of net rq maxRetries attempt] Let_def)
      qed
    qed
  qed
qed

lemma get_returns_ok_only: "BaseAPI_get api net ep = Inr r \<Longrightarrow> ok r"
  unfolding BaseAPI_get_def HttpClient_get_def request_def
  by (rule request_never_returns_not_ok)

lemma show_int_404: "show_int 404 = ''404''"
  by code_simp

text \<open>
  C1 on the code: a server that answers every attempt for an item with status 404 and the
  JSON body \<^verbatim>\<open>null\<close>. The envelope of each attempt has \<open>ok = False\<close> and a null body, and
  \<^verbatim>\<open>getItem\<close> throws the \<^verbatim>\<open>APIError\<close> of the transport client, for every identifier: the
  check of \<^verbatim>\<open>response.ok\<close> in \<^verbatim>\<open>getItem\<close> is never reached with a response that is not ok.
\<close>

theorem getItem_throws_on_error_status:
  "getItem host demo_client (json_server 404 ''Not Found'' JNull) itemId
     = Inl (APIError 404 ''HTTP 404: Not Found''
              (''https://hacker-news.firebaseio.com/v0/item/'' @ show_int itemId @ ''.json'') JNull)"
proof -
  let ?ep = "''/item/'' @ show_int itemId @ ''.json''"
  let ?cfg = "\<lparr>rq_method = GET, rq_url = ?ep, rq_headers = None, rq_body = None,
                rq_timeout = None, rq_retries = None\<rparr>"
  let ?rq = "prepare (httpClient demo_client) ?cfg"
  have u: "f_url ?rq = ''https://hacker-news.firebaseio.com/v0/item/'' @ show_int itemId @ ''.json''"
    by (simp add: prepare_def buildUrl_def demo_client_eq endsWith_def)
  have "fst (request_loop (json_server 404 ''Not Found'' JNull) ?rq 2 0 None \<lparr>fetch_calls = 0, delays = []\<rparr>)
          = Inl (handleAPIError (projl (attempt_once (json_server 404 ''Not Found'' JNull) ?rq (nat 2))) (f_url ?rq))"
    using loop_exhaust [of 0 2 "json_server 404 ''Not Found'' JNull" ?rq None "\<lparr>fetch_calls = 0, delays = []\<rparr>"]
    by (simp add: attempt_json_fail)
  then have "BaseAPI_get demo_client (json_server 404 ''Not Found'' JNull) ?ep
          = Inl (APIError 404 ''HTTP 404: Not Found'' (f_url ?rq) JNull)"
    by (simp add: BaseAPI_get_def HttpClient_get_def request_def maxRetries_of_def demo_client_eq
          attempt_json_fail show_int_404)
  then show ?thesis
    unfolding getItem_def u by simp
qed

theorem getItem_throws_on_error_status_witness:
  "getItem object_host demo_client (json_server 404 ''Not Found'' JNull) (- 1)
     = Inl (APIError 404 ''HTTP 404: Not Found''
              ''https://hacker-news.firebaseio.com/v0/item/-1.json'' JNull)"
proof -
  have "show_int (- 1) = ''-1''" by code_simp
  with getItem_throws_on_error_status [where itemId = "- 1" and host = object_host]
  show ?thesis by simp
qed

text \<open>
  The half of C1 that holds: a response with a 2xx status whose body decodes to \<^verbatim>\<open>null\<close>
  gives \<^verbatim>\<open>null\<close>, for every identifier.
\<close>

lemma getItem_null_payload: "getItem host demo_client (json_server 200 ''OK'' JNull) itemId = Inr JNull"
  by (rule getItem_null_body [OF demo_get]) (simp add: ok_envelope_def)

section \<open>The configuration\<close>

lemma map_of_loadEnvironments:
  "map_of loadEnvironments n =
     (if n = ''dev'' then Some \<lparr>env_name = ''dev'', env_baseUrl = ''https://hacker-news.firebaseio.com/v0'',
                 env_timeout = Some 30000, env_retries = Some 2, env_headers = None\<rparr>
      else if n = ''staging'' then Some \<lparr>env_name = ''staging'', env_baseUrl = ''https://hacker-news.firebaseio.com/v0'',
                 env_timeout = Some 30000, env_retries = Some 2, env_headers = None\<rparr>
      else if n = ''production'' then Some \<lparr>env_name = ''production'', env_baseUrl = ''https://hacker-news.firebaseio.com/v0'',
                 env_timeout = Some 30000, env_retries = Some 1, env_headers = None\<rparr>
      else None)"
  by (simp add: loadEnvironments_def)

lemma config_inv_start: "new_ConfigManager penv = Inr cm \<Longrightarrow> config_inv cm"
  by (auto simp add: new_ConfigManager_def initializeConfig_def config_inv_def map_of_loadEnvironments Let_def
      split: sum.splits option.splits if_splits)

lemma config_inv_setEnvironment:
  "config_inv cm \<Longrightarrow> setEnvironment n cm = Inr cm' \<Longrightarrow>
     config_inv cm' \<and> logging (config cm') = logging (config cm) \<and> reporting (config cm') = reporting (config cm)"
  by (auto simp add: setEnvironment_def config_inv_def map_of_loadEnvironments split: option.splits if_splits)

lemma config_inv_after_op:
  "config_inv cm \<Longrightarrow>
     config_inv (after_op cm op) \<and> logging (config (after_op cm op)) = logging (config cm)
       \<and> reporting (config (after_op cm op)) = reporting (config cm)"
  using config_inv_setEnvironment by (cases op) (auto split: sum.splits)

lemma config_inv_after_ops:
  "config_inv cm \<Longrightarrow>
     config_inv (after_ops cm ops) \<and> logging (config (after_ops cm ops)) = logging (config cm)
       \<and> reporting (config (after_ops cm ops)) = reporting (config cm)"
proof (induction ops arbitrary: cm)
  case Nil
  then show ?case by (simp add: after_ops_def)
next
  case (Cons op ops)
  from config_inv_after_op [OF Cons.prems, of op] Cons.IH [of "after_op cm op"]
  show ?case by (simp add: after_ops_def)
qed

text \<open>
  C4, as the code has it. After any sequence of operations of the resolver on the
  configuration established at start, the base URL, the timeout, the logging section and
  the reporting section are those of the start, and every getter leaves the configuration
  as it is. \<^verbatim>\<open>setEnvironment\<close> with the name of a profile makes that profile the active
  environment; with any other name it throws a \<^verbatim>\<open>ConfigurationError\<close> and changes nothing.
\<close>

theorem config_after_operations:
  assumes "new_ConfigManager penv = Inr cm0"
  shows "getBaseUrl (after_ops cm0 ops) = getBaseUrl cm0
       \<and> getTimeout (after_ops cm0 ops) = getTimeout cm0
       \<and> logging (getConfig (after_ops cm0 ops)) = logging (getConfig cm0)
       \<and> reporting (getConfig (after_ops cm0 ops)) = reporting (getConfig cm0)
       \<and> ((\<forall>n. op \<noteq> SetEnvironment n) \<longrightarrow> after_op (after_ops cm0 ops) op = after_ops cm0 ops)
       \<and> (n \<in> {''dev'', ''staging'', ''production''} \<longrightarrow>
            map_of loadEnvironments n = Some (getEnvironment (after_op (after_ops cm0 ops) (SetEnvironment n)))
            \<and> env_name (getEnvironment (after_op (after_ops cm0 ops) (SetEnvironment n))) = n)
       \<and> (n \<notin> {''dev'', ''staging'', ''production''} \<longrightarrow>
            setEnvironment n (after_ops cm0 ops) = Inl (ConfigurationError (not_found_message n loadEnvironments))
            \<and> after_op (after_ops cm0 ops) (SetEnvironment n) = after_ops cm0 ops)"
proof -
  let ?cm = "after_ops cm0 ops"
  have i0: "config_inv cm0" using assms by (rule config_inv_start)
  from config_inv_after_ops [OF i0, of ops]
  have i: "config_inv ?cm" and l: "logging (config ?cm) = logging (config cm0)"
    and r: "reporting (config ?cm) = reporting (config cm0)" by simp_all
  have a: "getBaseUrl ?cm = getBaseUrl cm0 \<and> getTimeout ?cm = getTimeout cm0"
    using i i0 by (simp add: getBaseUrl_def getTimeout_def config_inv_def)
  have g: "(\<forall>n. op \<noteq> SetEnvironment n) \<longrightarrow> after_op ?cm op = ?cm"
    by (cases op) simp_all
  have s: "n \<in> {''dev'', ''staging'', ''production''} \<longrightarrow>
            map_of loadEnvironments n = Some (getEnvironment (after_op ?cm (SetEnvironment n)))
            \<and> env_name (getEnvironment (after_op ?cm (SetEnvironment n))) = n"
    using i by (auto simp add: setEnvironment_def config_inv_def map_of_loadEnvironments getEnvironment_def)
  have t: "n \<notin> {''dev'', ''staging'', ''production''} \<longrightarrow>
            setEnvironment n ?cm = Inl (ConfigurationError (not_found_message n loadEnvironments))
            \<and> after_op ?cm (SetEnvironment n) = ?cm"
    using i by (auto simp add: setEnvironment_def config_inv_def map_of_loadEnvironments handleConfigurationError_def)
  show ?thesis using a l r g s t by (simp add: getConfig_def)
qed

theorem config_after_operations_witness:
  "getBaseUrl (after_ops demo_config [SetEnvironment ''staging'', GetRetries]) = getBaseUrl demo_config
   \<and> getTimeout (after_ops demo_config [SetEnvironment ''staging'', GetRetries]) = getTimeout demo_config
   \<and> after_op (after_ops demo_config [SetEnvironment ''staging'', GetRetries]) GetBaseUrl
       = after_ops demo_config [SetEnvironment ''staging'', GetRetries]
   \<and> env_name (getEnvironment (after_op (after_ops demo_config [SetEnvironment ''staging'', GetRetries])
                                  (SetEnvironment ''production''))) = ''production''
   \<and> after_op (after_ops demo_config [SetEnvironment ''staging'', GetRetries]) (SetEnvironment ''test'')
       = after_ops demo_config [SetEnvironment ''staging'', GetRetries]"
  using config_after_operations [OF demo_config_start, of "[SetEnvironment ''staging'', GetRetries]" GetBaseUrl "''production''"]
        config_after_operations [OF demo_config_start, of "[SetEnvironment ''staging'', GetRetries]" GetBaseUrl "''test''"]
  by simp

text \<open>
  C4 as stated fails: \<^verbatim>\<open>setEnvironment('production')\<close> on the configuration of a run
  started without environment variables changes the retry count from 2 to 1.
\<close>

theorem setEnvironment_counterexample:
  "getRetries demo_config = 2
   \<and> getRetries (after_op demo_config (SetEnvironment ''production'')) = 1"
  by (simp add: getRetries_def demo_config_def setEnvironment_def map_of_loadEnvironments)

section \<open>Building the URL\<close>

lemma startsWith_iff: "startsWith s p \<longleftrightarrow> (\<exists>t. s = p @ t)"
  by (induction s p rule: startsWith.induct) auto

lemma endsWith_iff: "endsWith s p \<longleftrightarrow> (\<exists>t. s = t @ p)"
proof -
  have "endsWith s p \<longleftrightarrow> (\<exists>t. rev s = rev p @ t)"
    by (simp add: endsWith_def startsWith_iff)
  also have "\<dots> \<longleftrightarrow> (\<exists>t. s = t @ p)"
  proof
    assume "\<exists>t. rev s = rev p @ t"
    then obtain t where "rev s = rev p @ t" ..
    then have "s = rev t @ p" by (metis rev_append rev_rev_ident)
    then show "\<exists>t. s = t @ p" ..
  next
    assume "\<exists>t. s = t @ p"
    then obtain t where "s = t @ p" ..
    then have "rev s = rev p @ rev t" by simp
    then show "\<exists>t. rev s = rev p @ t" ..
  qed
  finally show ?thesis .
qed

lemma slice_drop_last: "slice (b @ [x]) 0 (- 1) = b"
  by (simp add: slice_def rel_index_def)

text \<open>
  C5, as the code has it. \<^verbatim>\<open>buildUrl\<close> returns a path that begins with \<^verbatim>\<open>http://\<close> or
  \<^verbatim>\<open>https://\<close> unchanged. Otherwise the result is \<open>b\<close>, one slash and \<open>p\<close>, where \<open>b\<close> is
  the base without its last character when that is a slash, and \<open>p\<close> is the path without
  its first character when that is a slash: one slash is removed on each side and no more,
  so one slash separates the base and the path whenever the base does not end in two
  slashes and the path does not begin with two.
\<close>

theorem buildUrl_join:
  "(startsWith path ''http://'' \<or> startsWith path ''https://'' \<longrightarrow> buildUrl c path = path)
   \<and> (\<not> startsWith path ''http://'' \<and> \<not> startsWith path ''https://''
        \<and> (hc_baseUrl c = b @ ''/'' \<or> (hc_baseUrl c = b \<and> \<not> endsWith b ''/''))
        \<and> (path = ''/'' @ p \<or> (path = p \<and> \<not> startsWith p ''/''))
      \<longrightarrow> buildUrl c path = b @ ''/'' @ p)"
proof -
  have e: "endsWith (b @ ''/'') ''/''" by (simp add: endsWith_def)
  have s: "startsWith (''/'' @ p) ''/''" by simp
  show ?thesis
    using e s slice_drop_last [of b "CHR ''/''"]
    by (auto simp add: buildUrl_def Let_def)
qed

theorem buildUrl_join_witness:
  "buildUrl (httpClient demo_client) ''https://example.org/x'' = ''https://example.org/x''
   \<and> buildUrl (httpClient (new_HackerNewsClient demo_config (Some ''https://example.org/v0/''))) ''/maxitem.json''
       = ''https://example.org/v0/maxitem.json''
   \<and> buildUrl (httpClient (new_HackerNewsClient demo_config (Some ''https://example.org/v0/''))) ''maxitem.json''
       = ''https://example.org/v0/maxitem.json''
   \<and> buildUrl (httpClient demo_client) ''/maxitem.json''
       = ''https://hacker-news.firebaseio.com/v0/maxitem.json''
   \<and> buildUrl (httpClient demo_client) ''maxitem.json''
       = ''https://hacker-news.firebaseio.com/v0/maxitem.json''"
proof -
  have b: "hc_baseUrl (httpClient (new_HackerNewsClient demo_config (Some ''https://example.org/v0/'')))
             = ''https://example.org/v0'' @ ''/''"
    by (simp add: new_HackerNewsClient_def new_BaseAPI_def new_HttpClient_def or_str_def Let_def)
  have d: "hc_baseUrl (httpClient demo_client) = ''https://hacker-news.firebaseio.com/v0''"
    by (simp add: demo_client_eq)
  show ?thesis
    using buildUrl_join [of "''https://example.org/x''" "httpClient demo_client"]
      buildUrl_join [of "''/maxitem.json''"
        "httpClient (new_HackerNewsClient demo_config (Some ''https://example.org/v0/''))"
        "''https://example.org/v0''" "''maxitem.json''"]
      buildUrl_join [of "''maxitem.json''"
        "httpClient (new_HackerNewsClient demo_config (Some ''https://example.org/v0/''))"
        "''https://example.org/v0''" "''maxitem.json''"]
      buildUrl_join [of "''/maxitem.json''" "httpClient demo_client"
        "''https://hacker-news.firebaseio.com/v0''" "''maxitem.json''"]
      buildUrl_join [of "''maxitem.json''" "httpClient demo_client"
        "''https://hacker-news.firebaseio.com/v0''" "''maxitem.json''"]
    unfolding b d
    by (simp add: endsWith_def)
qed

text \<open>
  C5 as stated fails for a base that ends in two slashes: two slashes separate the host
  and the path in the result.
\<close>

theorem buildUrl_double_slash_counterexample:
  "buildUrl (httpClient (new_HackerNewsClient demo_config (Some ''https://example.org//''))) ''maxitem.json''
     = ''https://example.org//maxitem.json''"
  by (simp add: buildUrl_def new_HackerNewsClient_def new_BaseAPI_def new_HttpClient_def or_str_def
        Let_def endsWith_def slice_def rel_index_def)

section \<open>Required fields\<close>




lemma split_on_plain: "sep \<notin> set k \<Longrightarrow> split_on sep k = [k]"
  by (induction k) auto



lemma getNestedValue_plain: "CHR ''.'' \<notin> set k \<Longrightarrow> getNestedValue host v k = getProp host v k"
  by (simp add: getNestedValue_def split_on_plain)






section \<open>The schema checkers\<close>

lemma valid_typed: "valid host (typed t) x \<longleftrightarrow> has_type t x"
  by (cases x) (simp_all add: typed_def)

lemma valid_array_of:
  "valid host (array_of (typed t)) x \<longleftrightarrow> (\<exists>xs. x = JArr xs \<and> (\<forall>e \<in> set xs. has_type t e))"
  by (cases x) (auto simp add: array_of_def list_all_iff valid_typed)

lemma valid_const_string: "valid host (const_string c) x \<longleftrightarrow> x = JStr c"
  by (cases x) (auto simp add: const_string_def)

lemma valid_type_enum:
  "valid host (Schema (Some ''string'') (Some vs) None None [] [] True) x \<longleftrightarrow>
     (\<exists>s. x = JStr s) \<and> x \<in> set vs"
  by (cases x) auto

lemma item_properties:
  "map fst (s_properties itemSchema) =
     [''id'', ''type'', ''by'', ''time'', ''text'', ''dead'', ''parent'', ''poll'', ''kids'', ''url'',
      ''score'', ''title'', ''parts'', ''descendants'', ''deleted'']"
  by (simp add: itemSchema_def)

lemma user_properties:
  "map fst (s_properties userSchema) = [''id'', ''created'', ''karma'', ''about'', ''submitted'']"
  by (simp add: userSchema_def)

lemma item_field_types_declared:
  "map (\<lambda>ks. (fst ks, the (s_type (snd ks)))) (s_properties itemSchema) = item_field_types"
  by (simp add: itemSchema_def item_field_types_def typed_def array_of_def)

lemma closed_schema_keys:
  "\<not> s_additionalProperties s \<Longrightarrow> valid host s (JObj kvs) \<Longrightarrow> k \<in> fst ` set kvs \<Longrightarrow>
   k \<in> set (map fst (s_properties s))"
  by (cases s) (auto simp add: list_all_iff)

lemma item_closed: "\<not> s_additionalProperties itemSchema"
  by (simp add: itemSchema_def)

lemma user_closed: "\<not> s_additionalProperties userSchema"
  by (simp add: userSchema_def)

text \<open>
  C8. An object with a property key outside the declared property set of the schema is
  rejected by \<^verbatim>\<open>validateItem\<close>, and likewise by \<^verbatim>\<open>validateUser\<close>, whatever its other
  fields are.
\<close>

theorem unknown_field_rejected:
  assumes "k \<in> fst ` set kvs"
  shows "(k \<notin> set [''id'', ''type'', ''by'', ''time'', ''text'', ''dead'', ''parent'', ''poll'', ''kids'',
                   ''url'', ''score'', ''title'', ''parts'', ''descendants'', ''deleted'']
          \<longrightarrow> \<not> validateItem host (JObj kvs))
       \<and> (k \<notin> set [''id'', ''created'', ''karma'', ''about'', ''submitted'']
          \<longrightarrow> \<not> validateUser host (JObj kvs))"
proof -
  have "validateItem host (JObj kvs) \<Longrightarrow> k \<in> set (map fst (s_properties itemSchema))"
    unfolding validateItem_def by (rule closed_schema_keys [OF item_closed _ assms])
  moreover have "validateUser host (JObj kvs) \<Longrightarrow> k \<in> set (map fst (s_properties userSchema))"
    unfolding validateUser_def by (rule closed_schema_keys [OF user_closed _ assms])
  ultimately show ?thesis
    unfolding item_properties user_properties by blast
qed

theorem unknown_field_rejected_witness:
  "\<not> validateItem object_host (JObj [(''id'', JNum 1), (''extra'', JStr ''x'')])
   \<and> \<not> validateUser object_host (JObj [(''id'', JStr ''pg''), (''created'', JNum 1),
                                        (''karma'', JNum 2), (''extra'', JStr ''x'')])"
  using unknown_field_rejected [where k = "''extra''" and host = object_host
          and kvs = "[(''id'', JNum 1), (''extra'', JStr ''x'')]"]
        unknown_field_rejected [where k = "''extra''" and host = object_host
          and kvs = "[(''id'', JStr ''pg''), (''created'', JNum 1), (''karma'', JNum 2),
                      (''extra'', JStr ''x'')]"]
  by simp

lemma minimal_item_accepted: "validateItem object_host (JObj [(''id'', JNum 1)])"
  by (simp add: validateItem_def itemSchema_def typed_def array_of_def object_host_def
        object_prototype_def)

lemma minimal_user_accepted:
  "validateUser object_host (JObj [(''id'', JStr ''pg''), (''created'', JNum 1), (''karma'', JNum 2)])"
  by (simp add: validateUser_def userSchema_def typed_def array_of_def object_host_def
        object_prototype_def)

lemma object_valid_iff:
  "valid host (Schema (Some ''object'') None None None props req False) v \<longleftrightarrow>
     (\<exists>kvs. v = JObj kvs
        \<and> list_all (\<lambda>ks. getProp host v (fst ks) = Undefined \<or> valid host (snd ks) (getProp host v (fst ks))) props
        \<and> list_all (\<lambda>k. getProp host v k \<noteq> Undefined) req
        \<and> list_all (\<lambda>k. k \<in> set (map fst props)) (map fst kvs))"
  by (cases v) auto


lemma validateType_has_type:
  "has_type t (getNestedValue host v k) \<Longrightarrow> t \<in> set [''number'', ''string'', ''boolean'', ''array''] \<Longrightarrow>
   validateType host v k t = Inr ()"
  by (cases "getNestedValue host v k") (auto simp add: validateType_def)

lemma has_type_number_typeof: "has_type ''number'' e \<Longrightarrow> typeof e = ''number''"
  by (cases e) auto

lemma item_like:
  assumes v: "valid host (Schema (Some ''object'') None None None (item_like_properties c) req False) v"
    and c: "c \<in> set [''job'', ''story'', ''comment'', ''poll'', ''pollopt'']"
    and req: "set req \<subseteq> set (map fst item_field_types)" "''id'' \<in> set req" "''type'' \<in> set req"
  shows "checked_field_by_field host v req \<and> getNestedValue host v ''type'' = JStr c \<and> validateItem host v"
proof -
  from v obtain kvs where obj: "v = JObj kvs"
    and P: "list_all (\<lambda>ks. getProp host v (fst ks) = Undefined \<or> valid host (snd ks) (getProp host v (fst ks)))
              (item_like_properties c)"
    and R: "list_all (\<lambda>k. getProp host v k \<noteq> Undefined) req"
    and A: "list_all (\<lambda>k. k \<in> set (map fst (item_like_properties c))) (map fst kvs)"
    unfolding object_valid_iff by blast
  let ?opt = "\<lambda>k t. getProp host v k = Undefined \<or> has_type t (getProp host v k)"
  let ?arr = "\<lambda>k. getProp host v k = Undefined
                  \<or> (\<exists>xs. getProp host v k = JArr xs \<and> (\<forall>e \<in> set xs. has_type ''number'' e))"
  from P have f:
    "?opt ''id'' ''number''" "getProp host v ''type'' = Undefined \<or> getProp host v ''type'' = JStr c"
    "?opt ''by'' ''string''" "?opt ''time'' ''number''" "?opt ''text'' ''string''"
    "?opt ''dead'' ''boolean''" "?opt ''parent'' ''number''" "?opt ''poll'' ''number''"
    "?arr ''kids''" "?opt ''url'' ''string''" "?opt ''score'' ''number''" "?opt ''title'' ''string''"
    "?arr ''parts''" "?opt ''descendants'' ''number''" "?opt ''deleted'' ''boolean''"
    by (simp_all only: item_like_properties_def list.pred_inject simp_thms fst_conv snd_conv valid_typed
          valid_array_of valid_const_string)
  from R req have present: "getProp host v ''id'' \<noteq> Undefined" "getProp host v ''type'' \<noteq> Undefined"
    by (simp_all add: list_all_iff)
  with f have ty: "getProp host v ''type'' = JStr c" and idn: "has_type ''number'' (getProp host v ''id'')"
    by simp_all
  have keys: "map fst (item_like_properties c) = map fst item_field_types"
    by (simp add: item_like_properties_def item_field_types_def)
  have item: "validateItem host v"
    unfolding validateItem_def itemSchema_def object_valid_iff
  proof (intro exI conjI)
    show "v = JObj kvs" by (rule obj)
    show "list_all (\<lambda>k. getProp host v k \<noteq> Undefined) [''id'']"
      using present by simp
    show "list_all (\<lambda>k. k \<in> set (map fst
             [(''id'', typed ''number''),
              (''type'', Schema (Some ''string'')
                 (Some [JStr ''job'', JStr ''story'', JStr ''comment'', JStr ''poll'', JStr ''pollopt''])
                 None None [] [] True),
              (''by'', typed ''string''), (''time'', typed ''number''), (''text'', typed ''string''),
              (''dead'', typed ''boolean''), (''parent'', typed ''number''), (''poll'', typed ''number''),
              (''kids'', array_of (typed ''number'')), (''url'', typed ''string''),
              (''score'', typed ''number''), (''title'', typed ''string''),
              (''parts'', array_of (typed ''number'')), (''descendants'', typed ''number''),
              (''deleted'', typed ''boolean'')])) (map fst kvs)"
      using A unfolding keys by (simp add: item_field_types_def)
    have "JStr c \<in> set [JStr ''job'', JStr ''story'', JStr ''comment'', JStr ''poll'', JStr ''pollopt'']"
      using c by auto
    with ty have "valid host (Schema (Some ''string'')
                 (Some [JStr ''job'', JStr ''story'', JStr ''comment'', JStr ''poll'', JStr ''pollopt''])
                 None None [] [] True) (getProp host v ''type'')"
      unfolding valid_type_enum by simp
    with f show "list_all (\<lambda>ks. getProp host v (fst ks) = Undefined \<or> valid host (snd ks) (getProp host v (fst ks)))
             [(''id'', typed ''number''),
              (''type'', Schema (Some ''string'')
                 (Some [JStr ''job'', JStr ''story'', JStr ''comment'', JStr ''poll'', JStr ''pollopt''])
                 None None [] [] True),
              (''by'', typed ''string''), (''time'', typed ''number''), (''text'', typed ''string''),
              (''dead'', typed ''boolean''), (''parent'', typed ''number''), (''poll'', typed ''number''),
              (''kids'', array_of (typed ''number'')), (''url'', typed ''string''),
              (''score'', typed ''number''), (''title'', typed ''string''),
              (''parts'', array_of (typed ''number'')), (''descendants'', typed ''number''),
              (''deleted'', typed ''boolean'')]"
      by (simp only: list.pred_inject simp_thms fst_conv snd_conv valid_typed valid_array_of)
  qed
  have plain: "\<forall>k \<in> set (map fst item_field_types). getNestedValue host v k = getProp host v k"
    by (simp add: item_field_types_def getNestedValue_plain)
  have "list_all (\<lambda>ks. \<not> valid host (snd ks) JNull) (item_like_properties c)"
    by (simp add: item_like_properties_def typed_def array_of_def const_string_def)
  with P have "\<forall>ks \<in> set (item_like_properties c). getProp host v (fst ks) \<noteq> JNull"
    unfolding list_all_iff by fastforce
  then have notnull: "\<forall>k \<in> set (map fst item_field_types). getProp host v k \<noteq> JNull"
    unfolding keys [symmetric] by simp
  have required: "validateRequired host v req = Inr ()"
  proof -
    have "getNestedValue host v k \<noteq> Undefined \<and> getNestedValue host v k \<noteq> JNull" if "k \<in> set req" for k
    proof -
      from that req(1) have k: "k \<in> set (map fst item_field_types)" by blast
      from that R have "getProp host v k \<noteq> Undefined" unfolding list_all_iff by blast
      with k plain notnull show ?thesis by metis
    qed
    then show ?thesis
      by (auto simp add: validateRequired_def Let_def filter_empty_conv)
  qed
  have opt: "getNestedValue host v k = Undefined \<or> validateType host v k t = Inr ()"
    if "getProp host v k = Undefined \<or> has_type t (getProp host v k)" "CHR ''.'' \<notin> set k"
       "t \<in> set [''number'', ''string'', ''boolean'', ''array'']" for k t
    using that validateType_has_type [where t = t and v = v and k = k and host = host] by (auto simp add: getNestedValue_plain)
  have arr: "getNestedValue host v k = Undefined \<or> validateType host v k ''array'' = Inr ()"
    if "getProp host v k = Undefined
          \<or> (\<exists>xs. getProp host v k = JArr xs \<and> (\<forall>e \<in> set xs. has_type ''number'' e))"
       "CHR ''.'' \<notin> set k" for k
    using that validateType_has_type [where t = "''array''" and v = v and k = k and host = host] by (auto simp add: getNestedValue_plain)
  have tyf: "getNestedValue host v ''type'' = JStr c"
    using ty by (simp add: getNestedValue_plain)
  let ?T = "\<lambda>k t. getNestedValue host v k = Undefined \<or> validateType host v k t = Inr ()"
  have t1: "?T ''id'' ''number''" by (rule opt [OF f(1)]) simp_all
  have t2: "?T ''type'' ''string''" by (rule opt) (simp_all add: ty)
  have t3: "?T ''by'' ''string''" by (rule opt [OF f(3)]) simp_all
  have t4: "?T ''time'' ''number''" by (rule opt [OF f(4)]) simp_all
  have t5: "?T ''text'' ''string''" by (rule opt [OF f(5)]) simp_all
  have t6: "?T ''dead'' ''boolean''" by (rule opt [OF f(6)]) simp_all
  have t7: "?T ''parent'' ''number''" by (rule opt [OF f(7)]) simp_all
  have t8: "?T ''poll'' ''number''" by (rule opt [OF f(8)]) simp_all
  have t9: "?T ''kids'' ''array''" by (rule arr [OF f(9)]) simp
  have t10: "?T ''url'' ''string''" by (rule opt [OF f(10)]) simp_all
  have t11: "?T ''score'' ''number''" by (rule opt [OF f(11)]) simp_all
  have t12: "?T ''title'' ''string''" by (rule opt [OF f(12)]) simp_all
  have t13: "?T ''parts'' ''array''" by (rule arr [OF f(13)]) simp
  have t14: "?T ''descendants'' ''number''" by (rule opt [OF f(14)]) simp_all
  have t15: "?T ''deleted'' ''boolean''" by (rule opt [OF f(15)]) simp_all
  have types: "list_all (\<lambda>kt. getNestedValue host v (fst kt) = Undefined
                              \<or> validateType host v (fst kt) (snd kt) = Inr ()) item_field_types"
    unfolding item_field_types_def list.pred_inject fst_conv snd_conv
    by (intro conjI t1 t2 t3 t4 t5 t6 t7 t8 t9 t10 t11 t12 t13 t14 t15) simp
  have elems: "list_all (\<lambda>k. case getNestedValue host v k of
                        JArr xs \<Rightarrow> list_all (\<lambda>e. typeof e = ''number'') xs
                      | _ \<Rightarrow> True) [''kids'', ''parts'']"
    using f(9,13) by (auto simp add: getNestedValue_plain list_all_iff has_type_number_typeof)
  show ?thesis
    using required types elems tyf item by (simp add: checked_field_by_field_def)
qed

lemma storySchema_eq:
  "storySchema = Schema (Some ''object'') None None None (item_like_properties ''story'')
                   [''id'', ''type'', ''title'', ''by'', ''time''] False"
  by (simp add: storySchema_def itemSchema_def spread_def item_like_properties_def)

lemma commentSchema_eq:
  "commentSchema = Schema (Some ''object'') None None None (item_like_properties ''comment'')
                     [''id'', ''type'', ''by'', ''parent'', ''text'', ''time''] False"
  by (simp add: commentSchema_def itemSchema_def spread_def item_like_properties_def)

lemma jobSchema_eq:
  "jobSchema = Schema (Some ''object'') None None None (item_like_properties ''job'')
                 [''id'', ''type'', ''title'', ''by'', ''time''] False"
  by (simp add: jobSchema_def itemSchema_def spread_def item_like_properties_def)

text \<open>
  C7. A value accepted by \<^verbatim>\<open>validateStory\<close>, \<^verbatim>\<open>validateComment\<close> or \<^verbatim>\<open>validateJob\<close> passes
  the check field by field: its required fields are present, every field that is there has
  its declared type, and the discriminator \<^verbatim>\<open>type\<close> is the constant of the schema. It is
  also accepted by \<^verbatim>\<open>validateItem\<close>.
\<close>

theorem typed_checkers_fieldwise:
  "(validateStory host v \<longrightarrow>
      checked_field_by_field host v [''id'', ''type'', ''title'', ''by'', ''time'']
      \<and> getNestedValue host v ''type'' = JStr ''story'' \<and> validateItem host v)
   \<and> (validateComment host v \<longrightarrow>
      checked_field_by_field host v [''id'', ''type'', ''by'', ''parent'', ''text'', ''time'']
      \<and> getNestedValue host v ''type'' = JStr ''comment'' \<and> validateItem host v)
   \<and> (validateJob host v \<longrightarrow>
      checked_field_by_field host v [''id'', ''type'', ''title'', ''by'', ''time'']
      \<and> getNestedValue host v ''type'' = JStr ''job'' \<and> validateItem host v)"
proof (intro conjI impI)
  assume "validateStory host v"
  then have "valid host (Schema (Some ''object'') None None None (item_like_properties ''story'')
                   [''id'', ''type'', ''title'', ''by'', ''time''] False) v"
    by (simp only: validateStory_def storySchema_eq)
  from item_like [OF this]
  have "checked_field_by_field host v [''id'', ''type'', ''title'', ''by'', ''time'']
          \<and> getNestedValue host v ''type'' = JStr ''story'' \<and> validateItem host v"
    by (simp add: item_field_types_def)
  then show "checked_field_by_field host v [''id'', ''type'', ''title'', ''by'', ''time'']"
    and "getNestedValue host v ''type'' = JStr ''story''" and "validateItem host v" by simp_all
next
  assume "validateComment host v"
  then have "valid host (Schema (Some ''object'') None None None (item_like_properties ''comment'')
                     [''id'', ''type'', ''by'', ''parent'', ''text'', ''time''] False) v"
    by (simp only: validateComment_def commentSchema_eq)
  from item_like [OF this]
  have "checked_field_by_field host v [''id'', ''type'', ''by'', ''parent'', ''text'', ''time'']
          \<and> getNestedValue host v ''type'' = JStr ''comment'' \<and> validateItem host v"
    by (simp add: item_field_types_def)
  then show "checked_field_by_field host v [''id'', ''type'', ''by'', ''parent'', ''text'', ''time'']"
    and "getNestedValue host v ''type'' = JStr ''comment''" and "validateItem host v" by simp_all
next
  assume "validateJob host v"
  then have "valid host (Schema (Some ''object'') None None None (item_like_properties ''job'')
                 [''id'', ''type'', ''title'', ''by'', ''time''] False) v"
    by (simp only: validateJob_def jobSchema_eq)
  from item_like [OF this]
  have "checked_field_by_field host v [''id'', ''type'', ''title'', ''by'', ''time'']
          \<and> getNestedValue host v ''type'' = JStr ''job'' \<and> validateItem host v"
    by (simp add: item_field_types_def)
  then show "checked_field_by_field host v [''id'', ''type'', ''title'', ''by'', ''time'']"
    and "getNestedValue host v ''type'' = JStr ''job''" and "validateItem host v" by simp_all
qed

lemma demo_story_accepted: "validateStory object_host demo_story"
  by (simp add: validateStory_def storySchema_eq item_like_properties_def demo_story_def
        typed_def array_of_def const_string_def object_host_def object_prototype_def)

theorem typed_checkers_fieldwise_witness:
  "validateStory object_host demo_story
   \<and> checked_field_by_field object_host demo_story [''id'', ''type'', ''title'', ''by'', ''time'']
   \<and> getNestedValue object_host demo_story ''type'' = JStr ''story''
   \<and> validateItem object_host demo_story"
  using typed_checkers_fieldwise [where v = demo_story and host = object_host] demo_story_accepted by simp

end
